theory Spec2Isabelle
  imports Main "HOL-Library.AList"
begin

section \<open>Distributed checkpoint state-dict translation (nemo/lightning/pytorch/strategies/utils.py)\<close>

text \<open>
  The two functions of the module that carry the geometry are embedded here:
  \<^verbatim>\<open>pyt_to_mcore_state_dict\<close> (the spec's \<open>splitForSave\<close>, with its inner
  \<^verbatim>\<open>_torch_to_mcore_sharded_tensor\<close> = \<open>toDialectA\<close>) and
  \<^verbatim>\<open>mcore_to_pyt_sharded_state_dict\<close> (the spec's \<open>mergeLoaded\<close>, with its inner
  \<^verbatim>\<open>_mcore_to_pyt_sharded_tensor\<close> = \<open>toDialectB\<close>).
  Python integers are \<open>int\<close>, Python's \<^verbatim>\<open>//\<close> is \<open>div\<close> (both round towards minus
  infinity), a raised exception is the \<open>Inl\<close> branch of a sum, and a dict is an
  association list in insertion order. A leading underscore of a Python name is dropped.
\<close>

subsection \<open>Exceptions\<close>

datatype error =
    AssertionError string
  | AttributeError
  | IndexError
  | KeyError string
  | TypeError
  | ValueError
  | ZeroDivisionError
  | CheckpointingException
  | ShapeMismatchError

subsection \<open>Data model\<close>

text \<open>A local buffer (\<^verbatim>\<open>torch.Tensor\<close>): only its shape and its identity matter here.\<close>

record torch_tensor =
  shape :: "int list"
  storage :: nat

text \<open>
  Dialect B (\<^verbatim>\<open>torch.distributed._sharded_tensor.ShardedTensor\<close>): the declared total
  size and the local shard records. A torch \<^verbatim>\<open>Shard\<close> has exactly the two attributes
  \<^verbatim>\<open>tensor\<close> and \<^verbatim>\<open>metadata\<close>.
\<close>

record shard_metadata =
  shard_offsets :: "int list"
  shard_sizes :: "int list"
  placement :: string

record shard =
  tensor :: torch_tensor
  metadata :: shard_metadata

record torch_sharded_tensor =
  meta_size :: "int list"
  local_shards :: "shard list"

text \<open>
  Dialect A (\<^verbatim>\<open>megatron.core.dist_checkpointing.mapping.ShardedTensor\<close>), with the
  fields of the spec's data model (section 3) and the \<^verbatim>\<open>allow_shape_mismatch\<close> flag the
  source hands to the constructor.
\<close>

record sharded_tensor =
  key :: string
  data :: torch_tensor
  global_shape :: "int list"
  global_offset :: "int list"
  axis_fragmentations :: "int list"
  replica_id :: int
  prepend_axis_num :: nat
  allow_shape_mismatch :: bool

text \<open>The opaque object shard (\<^verbatim>\<open>ShardedObject\<close>); the payload is a byte string.\<close>

record sharded_object =
  obj_key :: string
  obj_data :: string
  obj_global_shape :: "int list"
  obj_global_offset :: "int list"
  obj_replica_id :: "int \<times> int \<times> int"

text \<open>A rank offset triple \<open>(axis, axis_rank_offset, axis_fragm)\<close>; axes are list positions.\<close>

type_synonym rank_offset = "nat \<times> int \<times> int"

subsection \<open>The Dialect-A constructor\<close>

text \<open>
  Modelled from the spec: \<^verbatim>\<open>ShardedTensor.from_rank_offsets\<close> belongs to megatron.core and
  is not under src/. Following sections 3, 4.1 and 8 of the spec, a descriptor starts
  with offset 0 and fragmentation 1 on every axis and with the global shape
  \<open>[1] * prepend_axis_num + data.shape\<close>; each triple \<open>(axis, rank_offset, fragm)\<close> then
  sets \<open>global_shape[axis] = fragm * local_extent\<close>, \<open>global_offset[axis] = rank_offset *
  local_extent\<close> and the fragmentation, where the local extent of a prepended (synthetic)
  axis is 1 and that of any other axis is the buffer's extent. The spec is silent on
  ill-formed triples; the argument checks of the library's constructor are kept as
  failures (a negative rank offset or fragmentation, a rank offset not below the
  fragmentation, an axis named twice, an axis beyond the buffer), and what is proved
  below about a descriptor is proved for the calls that return one. The constructor is
  never given the tensor's declared total size.
\<close>

definition local_axis_shape :: "nat \<Rightarrow> int list \<Rightarrow> nat \<Rightarrow> int" where
  "local_axis_shape p sh axis = (if axis < p then 1 else sh ! (axis - p))"

text \<open>
  Modelled from the spec: the loop of \<^verbatim>\<open>from_rank_offsets\<close> over its triples (not under
  src/), with the checks and the three assignments described above; \<open>seen\<close> holds the
  axes named so far.
\<close>

fun rank_offsets_loop ::
  "nat \<Rightarrow> int list \<Rightarrow> rank_offset list \<Rightarrow> nat list \<Rightarrow>
   int list \<times> int list \<times> int list \<Rightarrow> error + (int list \<times> int list \<times> int list)" where
  "rank_offsets_loop p sh [] seen st = Inr st"
| "rank_offsets_loop p sh ((axis, axis_rank_offset, axis_fragm) # rest) seen (gs, go, af) =
     (if \<not> (0 \<le> axis_rank_offset \<and> 0 \<le> axis_fragm)
        then Inl (AssertionError ''(axis, axis_rank_offset, axis_fragm)'')
      else if \<not> axis_rank_offset < axis_fragm
        then Inl (AssertionError ''Rank offset must be lower than axis fragmentation'')
      else if axis \<in> set seen then Inl CheckpointingException
      else if \<not> (axis < p \<or> axis - p < length sh) then Inl IndexError
      else
        rank_offsets_loop p sh rest (axis # seen)
          (gs[axis := axis_fragm * local_axis_shape p sh axis],
           go[axis := axis_rank_offset * local_axis_shape p sh axis],
           af[axis := axis_fragm]))"

text \<open>
  Modelled from the spec: \<^verbatim>\<open>from_rank_offsets\<close> itself (not under src/): the initial
  sequences, the loop, and the descriptor that stores the key, the buffer, the replica
  id, \<open>prepend_axis_num\<close> and the flag as they are given.
\<close>

definition from_rank_offsets ::
  "string \<Rightarrow> torch_tensor \<Rightarrow> rank_offset list \<Rightarrow> int \<Rightarrow> nat \<Rightarrow> bool \<Rightarrow> error + sharded_tensor" where
  "from_rank_offsets k ten rank_offsets rid p allow =
     (let ndim = length (shape ten) in
      case rank_offsets_loop p (shape ten) rank_offsets []
             (replicate p 1 @ shape ten, replicate (ndim + p) 0, replicate (ndim + p) 1) of
        Inl e \<Rightarrow> Inl e
      | Inr (gs, go, af) \<Rightarrow>
          Inr \<lparr> key = k, data = ten, global_shape = gs, global_offset = go,
                axis_fragmentations = af, replica_id = rid, prepend_axis_num = p,
                allow_shape_mismatch = allow \<rparr>)"

subsection \<open>toDialectA: \<^verbatim>\<open>_torch_to_mcore_sharded_tensor\<close>\<close>

text \<open>
  \<^verbatim>\<open>axis_fragm = [global_shape[i] // local_shards[0].metadata.shard_sizes[i] for i in axis]\<close>:
  the first local shard's extents divide the declared size, whatever the flag. The
  subscripts raise IndexError and a zero extent raises ZeroDivisionError, but only when
  there is an axis to visit.
\<close>

fun axis_fragm_of :: "int list \<Rightarrow> shard list \<Rightarrow> nat list \<Rightarrow> error + int list" where
  "axis_fragm_of gshape ls [] = Inr []"
| "axis_fragm_of gshape ls (i # is) =
     (case ls of
        [] \<Rightarrow> Inl IndexError
      | s0 # _ \<Rightarrow>
          if \<not> i < length (shard_sizes (metadata s0)) then Inl IndexError
          else if shard_sizes (metadata s0) ! i = 0 then Inl ZeroDivisionError
          else (case axis_fragm_of gshape ls is of
                  Inl e \<Rightarrow> Inl e
                | Inr fs \<Rightarrow> Inr (gshape ! i div shard_sizes (metadata s0) ! i # fs)))"

text \<open>
  The inner loop over the axes of one shard:
  \<^verbatim>\<open>axis_rank_offset = meta.shard_offsets[j] // meta.shard_sizes[j]\<close>, appended as
  \<^verbatim>\<open>(axis[j] + prepend_axis_num, axis_rank_offset, axis_fragm[j])\<close>.
\<close>

fun shard_rank_offsets ::
  "nat \<Rightarrow> shard_metadata \<Rightarrow> int list \<Rightarrow> nat list \<Rightarrow> error + rank_offset list" where
  "shard_rank_offsets p m axis_fragm [] = Inr []"
| "shard_rank_offsets p m axis_fragm (j # js) =
     (if \<not> j < length (shard_offsets m) then Inl IndexError
      else if \<not> j < length (shard_sizes m) then Inl IndexError
      else if shard_sizes m ! j = 0 then Inl ZeroDivisionError
      else (case shard_rank_offsets p m axis_fragm js of
              Inl e \<Rightarrow> Inl e
            | Inr ros \<Rightarrow>
                Inr ((j + p, shard_offsets m ! j div shard_sizes m ! j, axis_fragm ! j) # ros)))"

text \<open>
  The loop over the local shards. \<^verbatim>\<open>rank_offsets\<close> is created once, before the loop,
  and every shard appends to it: the list handed to the constructor for shard \<open>i\<close>
  holds the triples of the shards \<open>0..i\<close>. The replica id is the constant 0.
\<close>

fun shards_loop ::
  "string \<Rightarrow> rank_offset list \<Rightarrow> bool \<Rightarrow> int list \<Rightarrow> nat \<Rightarrow>
   rank_offset list \<Rightarrow> shard list \<Rightarrow> error + sharded_tensor list" where
  "shards_loop k prepend_offsets allow axis_fragm n rank_offsets [] = Inr []"
| "shards_loop k prepend_offsets allow axis_fragm n rank_offsets (local_shard # rest) =
     (case shard_rank_offsets (length prepend_offsets) (metadata local_shard) axis_fragm [0..<n] of
        Inl e \<Rightarrow> Inl e
      | Inr ros \<Rightarrow>
          (case from_rank_offsets k (tensor local_shard)
                  (prepend_offsets @ rank_offsets @ ros) 0 (length prepend_offsets) allow of
             Inl e \<Rightarrow> Inl e
           | Inr d \<Rightarrow>
               (case shards_loop k prepend_offsets allow axis_fragm n (rank_offsets @ ros) rest of
                  Inl e \<Rightarrow> Inl e
                | Inr ds \<Rightarrow> Inr (d # ds))))"

text \<open>
  The placement assertion compares every local shard with the first one (an empty list
  passes). Its message expression reads \<^verbatim>\<open>ls.meta.placement\<close>; a torch \<^verbatim>\<open>Shard\<close> has no
  attribute \<^verbatim>\<open>meta\<close>, so when the condition is false, building the message raises
  AttributeError before an AssertionError can be raised.
\<close>

definition same_placement :: "shard list \<Rightarrow> bool" where
  "same_placement ls =
     (case ls of
        [] \<Rightarrow> True
      | s0 # _ \<Rightarrow> list_all (\<lambda>s. placement (metadata s) = placement (metadata s0)) ls)"

definition torch_to_mcore_sharded_tensor ::
  "string \<Rightarrow> torch_sharded_tensor \<Rightarrow> rank_offset list \<Rightarrow> string \<Rightarrow> bool \<Rightarrow>
   error + sharded_tensor list" where
  "torch_to_mcore_sharded_tensor k sh_ten prepend_offsets pfx allow =
     (if \<not> same_placement (local_shards sh_ten) then Inl AttributeError
      else
        (let gshape = meta_size sh_ten; n = length gshape in
         case axis_fragm_of gshape (local_shards sh_ten) [0..<n] of
           Inl e \<Rightarrow> Inl e
         | Inr axis_fragm \<Rightarrow>
             shards_loop (pfx @ k) prepend_offsets allow axis_fragm n [] (local_shards sh_ten)))"

subsection \<open>toDialectB: \<^verbatim>\<open>_mcore_to_pyt_sharded_tensor\<close>\<close>

text \<open>
  Modelled from the spec: \<^verbatim>\<open>ShardedTensor.validate_metadata_integrity\<close> belongs to
  megatron.core and is not under src/. Sections 3 and 8 of the spec give the check: the
  three sequences have one length; after the \<open>prepend_axis_num\<close> leading entries they
  have one entry per axis of the local buffer; on each such axis
  \<open>global_shape[i] == local_extent[i] * fragmentation[i]\<close> and the offset is a multiple
  \<open>rank_offset[i] * local_extent[i]\<close> of the local extent. A descriptor that breaks one
  of them fails with \<open>ShapeMismatchError\<close>.
\<close>

definition axes_consistent :: "int list \<Rightarrow> int list \<Rightarrow> int list \<Rightarrow> int list \<Rightarrow> bool" where
  "axes_consistent loc gs go af =
     (length gs = length loc \<and> length go = length loc \<and> length af = length loc \<and>
      list_all (\<lambda>i. gs ! i = loc ! i * af ! i \<and> loc ! i dvd go ! i) [0..<length loc])"

text \<open>
  Modelled from the spec: the invariant of section 3 on a whole descriptor (part of
  \<^verbatim>\<open>validate_metadata_integrity\<close>, not under src/): equal lengths, and the axes after
  the prepended ones consistent with the buffer's shape.
\<close>

definition metadata_consistent :: "sharded_tensor \<Rightarrow> bool" where
  "metadata_consistent d =
     (length (global_offset d) = length (global_shape d) \<and>
      length (axis_fragmentations d) = length (global_shape d) \<and>
      axes_consistent (shape (data d))
        (drop (prepend_axis_num d) (global_shape d))
        (drop (prepend_axis_num d) (global_offset d))
        (drop (prepend_axis_num d) (axis_fragmentations d)))"

text \<open>
  Modelled from the spec: \<^verbatim>\<open>validate_metadata_integrity\<close> (not under src/) returns for a
  consistent descriptor and fails with \<open>ShapeMismatchError\<close> otherwise (section 4.1).
\<close>

definition validate_metadata_integrity :: "sharded_tensor \<Rightarrow> error + unit" where
  "validate_metadata_integrity d =
     (if metadata_consistent d then Inr () else Inl ShapeMismatchError)"

text \<open>
  Modelled from the spec: \<^verbatim>\<open>sharded_tensor_to_torch_sharded_tensor\<close> belongs to
  megatron.core and is not under src/. Section 4.1 of the spec: the output is one
  Dialect-B value aggregating all descriptors of the key. Its declared size is the
  global shape of the descriptors (read from the first one, so an empty sequence has
  none to give), and each descriptor becomes one local shard record: the buffer, the
  global offset as shard offsets, the buffer's shape as shard sizes. The placement of
  the calling rank is a parameter.
\<close>

definition shard_of_descriptor :: "string \<Rightarrow> sharded_tensor \<Rightarrow> shard" where
  "shard_of_descriptor pl d =
     \<lparr> tensor = data d,
       metadata = \<lparr> shard_offsets = global_offset d, shard_sizes = shape (data d),
                    placement = pl \<rparr> \<rparr>"

text \<open>
  Modelled from the spec: \<^verbatim>\<open>sharded_tensor_to_torch_sharded_tensor\<close> (not under src/), the
  aggregate of section 4.1 as described above.
\<close>

definition sharded_tensor_to_torch_sharded_tensor ::
  "string \<Rightarrow> sharded_tensor list \<Rightarrow> error + torch_sharded_tensor" where
  "sharded_tensor_to_torch_sharded_tensor pl sh_tens =
     (case sh_tens of
        [] \<Rightarrow> Inl IndexError
      | d0 # _ \<Rightarrow>
          Inr \<lparr> meta_size = global_shape d0,
                local_shards = map (shard_of_descriptor pl) sh_tens \<rparr>)"

text \<open>
  The body of the \<^verbatim>\<open>for ten, sh_ten in zip(tens, sh_tens)\<close> loop: the slices
  \<^verbatim>\<open>[sh_ten.prepend_axis_num:]\<close>, the reset, the rebinding of \<^verbatim>\<open>data\<close>, then the
  validation. The descriptor is mutated in place; the model returns the new one.
\<close>

definition strip_prepend_axes :: "torch_tensor \<Rightarrow> sharded_tensor \<Rightarrow> sharded_tensor" where
  "strip_prepend_axes ten sh_ten =
     sh_ten \<lparr> global_shape := drop (prepend_axis_num sh_ten) (global_shape sh_ten),
              global_offset := drop (prepend_axis_num sh_ten) (global_offset sh_ten),
              axis_fragmentations := drop (prepend_axis_num sh_ten) (axis_fragmentations sh_ten),
              prepend_axis_num := 0,
              data := ten \<rparr>"

text \<open>
  \<^verbatim>\<open>zip\<close> stops at the shorter sequence: buffers beyond the descriptors are never
  looked at, descriptors beyond the buffers stay as they are. No length is compared.
\<close>

fun mcore_to_pyt_loop :: "torch_tensor list \<Rightarrow> sharded_tensor list \<Rightarrow> error + sharded_tensor list" where
  "mcore_to_pyt_loop (ten # tens) (sh_ten # sh_tens) =
     (let d = strip_prepend_axes ten sh_ten in
      case validate_metadata_integrity d of
        Inl e \<Rightarrow> Inl e
      | Inr _ \<Rightarrow>
          (case mcore_to_pyt_loop tens sh_tens of
             Inl e \<Rightarrow> Inl e
           | Inr ds \<Rightarrow> Inr (d # ds)))"
| "mcore_to_pyt_loop [] sh_tens = Inr sh_tens"
| "mcore_to_pyt_loop tens [] = Inr []"

text \<open>
  \<^verbatim>\<open>_mcore_to_pyt_sharded_tensor\<close> returns the aggregate; the descriptors as the loop
  left them are returned with it, since the caller's template holds them.
\<close>

definition mcore_to_pyt_sharded_tensor ::
  "string \<Rightarrow> torch_tensor list \<Rightarrow> sharded_tensor list \<Rightarrow>
   error + (sharded_tensor list \<times> torch_sharded_tensor)" where
  "mcore_to_pyt_sharded_tensor pl tens sh_tens =
     (case mcore_to_pyt_loop tens sh_tens of
        Inl e \<Rightarrow> Inl e
      | Inr ds \<Rightarrow>
          (case sharded_tensor_to_torch_sharded_tensor pl ds of
             Inl e \<Rightarrow> Inl e
           | Inr t \<Rightarrow> Inr (ds, t)))"

subsection \<open>Python string operations\<close>

definition startswith :: "string \<Rightarrow> string \<Rightarrow> bool" where
  "startswith s p = (take (length p) s = p)"

definition endswith :: "string \<Rightarrow> string \<Rightarrow> bool" where
  "endswith s p = (length p \<le> length s \<and> drop (length s - length p) s = p)"

text \<open>\<^verbatim>\<open>s.split('.')\<close>: every dot separates, so the result is never empty.\<close>

fun split_dot :: "string \<Rightarrow> string list" where
  "split_dot [] = [[]]"
| "split_dot (c # cs) =
     (if c = CHR ''.'' then [] # split_dot cs
      else (case split_dot cs of
              [] \<Rightarrow> [[c]]
            | w # ws \<Rightarrow> (c # w) # ws))"

text \<open>\<^verbatim>\<open>'.'.join(parts)\<close>.\<close>

fun join_dot :: "string list \<Rightarrow> string" where
  "join_dot [] = []"
| "join_dot [w] = w"
| "join_dot (w # ws) = w @ ''.'' @ join_dot ws"

text \<open>Subscript with a non-negative index, and \<^verbatim>\<open>list.pop(i)\<close>.\<close>

definition py_nth :: "'a list \<Rightarrow> nat \<Rightarrow> error + 'a" where
  "py_nth xs i = (if i < length xs then Inr (xs ! i) else Inl IndexError)"

definition py_pop :: "'a list \<Rightarrow> nat \<Rightarrow> error + ('a \<times> 'a list)" where
  "py_pop xs i = (if i < length xs then Inr (xs ! i, take i xs @ drop (Suc i) xs) else Inl IndexError)"

text \<open>
  \<^verbatim>\<open>int(s)\<close> on a string, base 10: surrounding whitespace is dropped, one sign is
  allowed, then decimal digits, which single underscores may separate; anything else is
  a ValueError. Keys are taken to be ASCII (Python also reads other Unicode decimal
  digits).
\<close>

definition is_space :: "char \<Rightarrow> bool" where
  "is_space c = ((of_char c :: nat) \<in> {9, 10, 11, 12, 13, 28, 29, 30, 31, 32})"

definition is_digit :: "char \<Rightarrow> bool" where
  "is_digit c = (48 \<le> (of_char c :: nat) \<and> (of_char c :: nat) \<le> 57)"

definition digit_val :: "char \<Rightarrow> int" where
  "digit_val c = int (of_char c) - 48"

fun py_digits :: "int \<Rightarrow> bool \<Rightarrow> string \<Rightarrow> int option" where
  "py_digits acc prev_digit [] = (if prev_digit then Some acc else None)"
| "py_digits acc prev_digit (c # cs) =
     (if is_digit c then py_digits (10 * acc + digit_val c) True cs
      else if c = CHR ''_'' \<and> prev_digit then py_digits acc False cs
      else None)"

definition py_strip :: "string \<Rightarrow> string" where
  "py_strip s = rev (dropWhile is_space (rev (dropWhile is_space s)))"

definition py_int :: "string \<Rightarrow> error + int" where
  "py_int s =
     (let r = (case py_strip s of
                 [] \<Rightarrow> None
               | c # cs \<Rightarrow>
                   if c = CHR ''-'' then map_option uminus (py_digits 0 False cs)
                   else if c = CHR ''+'' then py_digits 0 False cs
                   else py_digits 0 False (c # cs))
      in case r of None \<Rightarrow> Inl ValueError | Some n \<Rightarrow> Inr n)"

subsection \<open>splitForSave: \<^verbatim>\<open>pyt_to_mcore_state_dict\<close>\<close>

text \<open>
  The state dict on the way in: nested dicts, Dialect-B tensors, byte blobs
  (\<^verbatim>\<open>io.BytesIO\<close>), and values of any other kind, which no branch of \<^verbatim>\<open>_convert\<close>
  touches. On the way out the tensor and blob leaves have been overwritten in the same
  dict; the model returns the dict of the entries as they are afterwards. The keys of a
  dict are distinct.
\<close>

datatype state_value =
    Dict "(string \<times> state_value) list"
  | TorchSharded torch_sharded_tensor
  | BytesIO string
  | Other nat

datatype mcore_value =
    MDict "(string \<times> mcore_value) list"
  | MTensors "sharded_tensor list"
  | MObject sharded_object
  | MOther nat

text \<open>
  Modelled from the spec: \<^verbatim>\<open>_get_extra_state_offsets\<close> belongs to megatron.core and is
  not under src/. Section 3 of the spec: an object shard is tagged with an offset tuple
  for the prepended-axis stacking scheme. The prepend offsets, ordered by axis (which
  must then count up from 0), give the shape (their fragmentations) and the offset
  (their rank offsets); without prepend offsets the object is position 0 of 1.
\<close>

definition get_extra_state_offsets :: "rank_offset list \<Rightarrow> error + (int list \<times> int list)" where
  "get_extra_state_offsets sharded_offsets =
     (if sharded_offsets = [] then Inr ([1], [0])
      else
        (let so = sort_key fst sharded_offsets in
         if map fst so \<noteq> [0..<length so] then Inl (AssertionError ''Expected contiguous axis for offsets'')
         else Inr (map (\<lambda>(a, off, sh). sh) so, map (\<lambda>(a, off, sh). off) so)))"

text \<open>
  \<^verbatim>\<open>_torch_to_mcore_sharded_object\<close>. The data-parallel rank (with context parallelism
  folded in) is read from the process-group registry; here it is the parameter
  \<open>dp_rank\<close>.
\<close>

definition torch_to_mcore_sharded_object ::
  "int \<Rightarrow> string \<Rightarrow> string \<Rightarrow> rank_offset list \<Rightarrow> string \<Rightarrow> error + sharded_object" where
  "torch_to_mcore_sharded_object dp_rank k obj sharded_offsets pfx =
     (let rid = (0, 0, dp_rank) in
      case get_extra_state_offsets sharded_offsets of
        Inl e \<Rightarrow> Inl e
      | Inr (gs, go) \<Rightarrow>
          Inr \<lparr> obj_key = pfx @ k, obj_data = obj, obj_global_shape = gs,
                obj_global_offset = go, obj_replica_id = rid \<rparr>)"

text \<open>
  \<^verbatim>\<open>_convert(state_dict, k, sh_key, v, prepend_offsets, prefix, allow_shape_mismatch)\<close>
  ends by storing into \<^verbatim>\<open>state_dict[k]\<close>; \<open>convert_save\<close> returns the value that is at
  \<^verbatim>\<open>state_dict[k]\<close> afterwards. In the dict branch only the prefix grows (by the inner
  key and a dot); \<open>sh_key\<close>, the prepend offsets and the flag go down unchanged.
\<close>

fun convert_save ::
    "int \<Rightarrow> string \<Rightarrow> state_value \<Rightarrow> rank_offset list \<Rightarrow> string \<Rightarrow> bool \<Rightarrow> error + mcore_value"
  and convert_save_items ::
    "int \<Rightarrow> string \<Rightarrow> (string \<times> state_value) list \<Rightarrow> rank_offset list \<Rightarrow> string \<Rightarrow> bool \<Rightarrow>
     error + (string \<times> mcore_value) list" where
  "convert_save dp_rank sh_key (Dict v) prepend_offsets pfx allow =
     (case convert_save_items dp_rank sh_key v prepend_offsets pfx allow of
        Inl e \<Rightarrow> Inl e
      | Inr kvs \<Rightarrow> Inr (MDict kvs))"
| "convert_save dp_rank sh_key (TorchSharded v) prepend_offsets pfx allow =
     (case torch_to_mcore_sharded_tensor sh_key v prepend_offsets pfx allow of
        Inl e \<Rightarrow> Inl e
      | Inr ds \<Rightarrow> Inr (MTensors ds))"
| "convert_save dp_rank sh_key (BytesIO v) prepend_offsets pfx allow =
     (case torch_to_mcore_sharded_object dp_rank sh_key v prepend_offsets pfx of
        Inl e \<Rightarrow> Inl e
      | Inr ob \<Rightarrow> Inr (MObject ob))"
| "convert_save dp_rank sh_key (Other x) prepend_offsets pfx allow = Inr (MOther x)"
| "convert_save_items dp_rank sh_key [] prepend_offsets pfx allow = Inr []"
| "convert_save_items dp_rank sh_key ((kk, vv) # rest) prepend_offsets pfx allow =
     (case convert_save dp_rank sh_key vv prepend_offsets (pfx @ kk @ ''.'') allow of
        Inl e \<Rightarrow> Inl e
      | Inr nv \<Rightarrow>
          (case convert_save_items dp_rank sh_key rest prepend_offsets pfx allow of
             Inl e \<Rightarrow> Inl e
           | Inr kvs \<Rightarrow> Inr ((kk, nv) # kvs)))"

text \<open>
  The Layer-Index Resolver, the first loop of \<^verbatim>\<open>pyt_to_mcore_state_dict\<close>:
  \<^verbatim>\<open>num_layers = max(num_layers, int(k.split('.')[3]) + 1)\<close> for every key that starts
  with the layer prefix, from \<^verbatim>\<open>num_layers = 0\<close>.
\<close>

definition layers_prefix :: string where
  "layers_prefix = ''module.decoder.layers.''"

definition layer_index :: "string \<Rightarrow> error + int" where
  "layer_index k = (case py_nth (split_dot k) 3 of Inl e \<Rightarrow> Inl e | Inr s \<Rightarrow> py_int s)"

fun num_layers_loop :: "int \<Rightarrow> string list \<Rightarrow> error + int" where
  "num_layers_loop num_layers [] = Inr num_layers"
| "num_layers_loop num_layers (k # ks) =
     (if startswith k layers_prefix then
        (case layer_index k of
           Inl e \<Rightarrow> Inl e
         | Inr n \<Rightarrow> num_layers_loop (max num_layers (n + 1)) ks)
      else num_layers_loop num_layers ks)"

definition resolve_num_layers :: "(string \<times> 'v) list \<Rightarrow> error + int" where
  "resolve_num_layers state_dict = num_layers_loop 0 (map fst state_dict)"

text \<open>
  The second loop. The flag is computed from the top-level key \<open>k\<close> as it stands; for a
  layer key the fourth component is popped and becomes the prepend offset
  \<open>(0, global_layer_offset, num_layers)\<close>.
\<close>

definition vocab_suffix :: string where
  "vocab_suffix = ''.word_embeddings.weight''"

definition convert_entry ::
  "int \<Rightarrow> int \<Rightarrow> string \<Rightarrow> string \<Rightarrow> state_value \<Rightarrow> error + mcore_value" where
  "convert_entry dp_rank num_layers pfx k v =
     (let allow = endswith k vocab_suffix in
      if startswith k layers_prefix then
        (case py_pop (split_dot k) 3 of
           Inl e \<Rightarrow> Inl e
         | Inr (s, parts) \<Rightarrow>
             (case py_int s of
                Inl e \<Rightarrow> Inl e
              | Inr global_layer_offset \<Rightarrow>
                  convert_save dp_rank (join_dot parts) v
                    [(0, global_layer_offset, num_layers)] pfx allow))
      else convert_save dp_rank k v [] pfx allow)"

fun entries_loop ::
  "int \<Rightarrow> int \<Rightarrow> string \<Rightarrow> (string \<times> state_value) list \<Rightarrow> error + (string \<times> mcore_value) list" where
  "entries_loop dp_rank num_layers pfx [] = Inr []"
| "entries_loop dp_rank num_layers pfx ((k, v) # rest) =
     (case convert_entry dp_rank num_layers pfx k v of
        Inl e \<Rightarrow> Inl e
      | Inr nv \<Rightarrow>
          (case entries_loop dp_rank num_layers pfx rest of
             Inl e \<Rightarrow> Inl e
           | Inr kvs \<Rightarrow> Inr ((k, nv) # kvs)))"

definition pyt_to_mcore_state_dict ::
  "int \<Rightarrow> (string \<times> state_value) list \<Rightarrow> string \<Rightarrow> error + (string \<times> mcore_value) list" where
  "pyt_to_mcore_state_dict dp_rank state_dict pfx =
     (case resolve_num_layers state_dict of
        Inl e \<Rightarrow> Inl e
      | Inr num_layers \<Rightarrow>
          if num_layers = 0 then Inl (AssertionError [])
          else entries_loop dp_rank num_layers pfx state_dict)"

subsection \<open>mergeLoaded: \<^verbatim>\<open>mcore_to_pyt_sharded_state_dict\<close>\<close>

text \<open>
  The loaded checkpoint holds nested dicts, lists of local buffers and byte blobs, and,
  once a key has been merged, the Dialect-B aggregate. The template
  (\<^verbatim>\<open>sharded_state_dict\<close>) holds nested dicts, object shards, lists of Dialect-A
  descriptors, and values of any other kind, which no branch touches.
\<close>

datatype ckpt_value =
    CDict "(string \<times> ckpt_value) list"
  | CTensors "torch_tensor list"
  | CBytes string
  | CSharded torch_sharded_tensor

datatype template_value =
    TDict "(string \<times> template_value) list"
  | TObject sharded_object
  | TTensors "sharded_tensor list"
  | TOther nat

text \<open>
  \<^verbatim>\<open>checkpoint[k]\<close> as an expression (KeyError names the missing key; a value that is
  not a dict cannot be subscripted with a string) and as an assignment target.
\<close>

definition subscript :: "ckpt_value \<Rightarrow> string \<Rightarrow> error + ckpt_value" where
  "subscript c k =
     (case c of
        CDict kvs \<Rightarrow> (case map_of kvs k of None \<Rightarrow> Inl (KeyError k) | Some v \<Rightarrow> Inr v)
      | _ \<Rightarrow> Inl TypeError)"

definition store :: "ckpt_value \<Rightarrow> string \<Rightarrow> ckpt_value \<Rightarrow> ckpt_value" where
  "store c k v = (case c of CDict kvs \<Rightarrow> CDict (AList.update k v kvs) | _ \<Rightarrow> c)"

fun dict_size :: "(string \<times> template_value) list \<Rightarrow> nat" where
  "dict_size kvs = size_list (size_prod (\<lambda>_. 0) size) kvs"

text \<open>
  \<^verbatim>\<open>_convert(checkpoint, sharded_state_dict, k)\<close>. The assertion looks \<open>k\<close> up in the
  template. In the dict branch the loop runs over the keys of the template's sub-dict
  and evaluates \<^verbatim>\<open>checkpoint[k]\<close> anew for each of them (\<open>convert_load_keys\<close>); the
  object branch does nothing, so it never reads the checkpoint; the list branch reads
  \<^verbatim>\<open>checkpoint[k]\<close> and overwrites it. The sub-dict of the checkpoint is mutated in
  place, which the model writes back with \<open>store\<close>. A checkpoint value under a
  descriptor list that is not a list of buffers is outside the declared type of
  \<^verbatim>\<open>checkpoint\<close>; the model stops there with TypeError. \<open>pl\<close> is the placement of
  the calling rank, for the aggregate.
\<close>

function convert_load ::
    "string \<Rightarrow> ckpt_value \<Rightarrow> (string \<times> template_value) list \<Rightarrow> string \<Rightarrow> error + ckpt_value"
  and convert_load_keys ::
    "string \<Rightarrow> ckpt_value \<Rightarrow> string \<Rightarrow> (string \<times> template_value) list \<Rightarrow> string list \<Rightarrow>
     error + ckpt_value" where
  "convert_load pl checkpoint sharded_state_dict k =
     (case map_of sharded_state_dict k of
        None \<Rightarrow> Inl (AssertionError (k @ '' not in sharded_state_dict''))
      | Some (TDict sub) \<Rightarrow> convert_load_keys pl checkpoint k sub (map fst sub)
      | Some (TObject ob) \<Rightarrow> Inr checkpoint
      | Some (TTensors sh_tens) \<Rightarrow>
          (case subscript checkpoint k of
             Inl e \<Rightarrow> Inl e
           | Inr (CTensors tens) \<Rightarrow>
               (case mcore_to_pyt_sharded_tensor pl tens sh_tens of
                  Inl e \<Rightarrow> Inl e
                | Inr (ds, t) \<Rightarrow> Inr (store checkpoint k (CSharded t)))
           | Inr _ \<Rightarrow> Inl TypeError)
      | Some (TOther x) \<Rightarrow> Inr checkpoint)"
| "convert_load_keys pl checkpoint k sub [] = Inr checkpoint"
| "convert_load_keys pl checkpoint k sub (kk # kks) =
     (case subscript checkpoint k of
        Inl e \<Rightarrow> Inl e
      | Inr ck \<Rightarrow>
          (case convert_load pl ck sub kk of
             Inl e \<Rightarrow> Inl e
           | Inr ck' \<Rightarrow> convert_load_keys pl (store checkpoint k ck') k sub kks))"
  by pat_completeness auto
termination
proof -
  have smaller: "dict_size sub < dict_size t" if "map_of t k = Some (TDict sub)" for t k sub
    using that by (induction t) (auto split: if_splits)
  show ?thesis
    by (relation "inv_image (less_than <*lex*> less_than)
          (\<lambda>x. case x of
             Inl (pl, c, t, k) \<Rightarrow> (dict_size t, 0)
           | Inr (pl, c, k, sub, ks) \<Rightarrow> (dict_size sub, Suc (length ks)))")
       (auto dest: smaller simp del: dict_size.simps)
qed

text \<open>The top-level loop \<^verbatim>\<open>for k in checkpoint\<close> runs over the keys of the checkpoint.\<close>

fun merge_loop ::
  "string \<Rightarrow> ckpt_value \<Rightarrow> (string \<times> template_value) list \<Rightarrow> string list \<Rightarrow> error + ckpt_value" where
  "merge_loop pl checkpoint sharded_state_dict [] = Inr checkpoint"
| "merge_loop pl checkpoint sharded_state_dict (k # ks) =
     (case convert_load pl checkpoint sharded_state_dict k of
        Inl e \<Rightarrow> Inl e
      | Inr c \<Rightarrow> merge_loop pl c sharded_state_dict ks)"

definition mcore_to_pyt_sharded_state_dict ::
  "string \<Rightarrow> (string \<times> ckpt_value) list \<Rightarrow> (string \<times> template_value) list \<Rightarrow> error + ckpt_value" where
  "mcore_to_pyt_sharded_state_dict pl checkpoint sharded_state_dict =
     merge_loop pl (CDict checkpoint) sharded_state_dict (map fst checkpoint)"


text \<open>A local shard record whose extents divide the declared size and its own offsets.\<close>

definition evenly_cut :: "torch_sharded_tensor \<Rightarrow> shard \<Rightarrow> bool" where
  "evenly_cut T s =
     (shape (tensor s) = shard_sizes (metadata s) \<and>
      length (shard_sizes (metadata s)) = length (meta_size T) \<and>
      length (shard_offsets (metadata s)) = length (meta_size T) \<and>
      list_all (\<lambda>j. shard_sizes (metadata s) ! j dvd meta_size T ! j \<and>
                    shard_sizes (metadata s) ! j dvd shard_offsets (metadata s) ! j \<and>
                    shard_sizes (metadata s) ! j = shard_sizes (metadata (local_shards T ! 0)) ! j)
        [0..<length (meta_size T)])"

subsection \<open>Reading the leaves of a translated state dict\<close>

text \<open>All Dialect-A descriptors, and all object shards, below a value of the result.\<close>

fun tensors_of :: "mcore_value \<Rightarrow> sharded_tensor list"
  and tensors_of_items :: "(string \<times> mcore_value) list \<Rightarrow> sharded_tensor list" where
  "tensors_of (MDict kvs) = tensors_of_items kvs"
| "tensors_of (MTensors ds) = ds"
| "tensors_of (MObject ob) = []"
| "tensors_of (MOther x) = []"
| "tensors_of_items [] = []"
| "tensors_of_items ((k, v) # rest) = tensors_of v @ tensors_of_items rest"

fun objects_of :: "mcore_value \<Rightarrow> sharded_object list"
  and objects_of_items :: "(string \<times> mcore_value) list \<Rightarrow> sharded_object list" where
  "objects_of (MDict kvs) = objects_of_items kvs"
| "objects_of (MTensors ds) = []"
| "objects_of (MObject ob) = [ob]"
| "objects_of (MOther x) = []"
| "objects_of_items [] = []"
| "objects_of_items ((k, v) # rest) = objects_of v @ objects_of_items rest"

subsection \<open>Example inputs\<close>

text \<open>
  A rank holding the middle chunk of a vector of 10 entries cut into chunks of 4, 4
  and 2; and one layer's weight, rows 4..7 of an 8 by 6 matrix.
\<close>

definition uneven_tensor :: torch_sharded_tensor where
  "uneven_tensor =
     \<lparr> meta_size = [10],
       local_shards =
         [\<lparr> tensor = \<lparr> shape = [4], storage = 0 \<rparr>,
            metadata = \<lparr> shard_offsets = [4], shard_sizes = [4], placement = ''rank:1/cuda:1'' \<rparr> \<rparr>] \<rparr>"

definition layer_tensor :: torch_sharded_tensor where
  "layer_tensor =
     \<lparr> meta_size = [8, 6],
       local_shards =
         [\<lparr> tensor = \<lparr> shape = [4, 6], storage = 1 \<rparr>,
            metadata = \<lparr> shard_offsets = [4, 0], shard_sizes = [4, 6], placement = ''rank:1/cuda:1'' \<rparr> \<rparr>] \<rparr>"

text \<open>A tensor whose two local shards sit on different devices.\<close>

definition two_device_tensor :: torch_sharded_tensor where
  "two_device_tensor =
     \<lparr> meta_size = [8],
       local_shards =
         [\<lparr> tensor = \<lparr> shape = [4], storage = 2 \<rparr>,
            metadata = \<lparr> shard_offsets = [0], shard_sizes = [4], placement = ''rank:0/cuda:0'' \<rparr> \<rparr>,
          \<lparr> tensor = \<lparr> shape = [4], storage = 3 \<rparr>,
            metadata = \<lparr> shard_offsets = [4], shard_sizes = [4], placement = ''rank:0/cuda:1'' \<rparr> \<rparr>] \<rparr>"

text \<open>
  State dicts: a layer weight and a layer's extra state; a state dict with the
  embedding table only; and one with a vector that is not evenly cut under a layer
  key, beside a tensor nested two levels below the top-level key \<open>weight\<close>.
\<close>

definition layer_state_dict :: "(string \<times> state_value) list" where
  "layer_state_dict =
     [(''module.decoder.layers.2.w'', TorchSharded layer_tensor),
      (''module.decoder.layers.4._extra_state'', BytesIO ''blob'')]"

definition embedding_state_dict :: "(string \<times> state_value) list" where
  "embedding_state_dict =
     [(''module.embedding.word_embeddings.weight'', TorchSharded layer_tensor)]"

definition nested_state_dict :: "(string \<times> state_value) list" where
  "nested_state_dict =
     [(''module.decoder.layers.0.w'', TorchSharded uneven_tensor),
      (''weight'', Dict [(''a'', Dict [(''word_embeddings'', TorchSharded layer_tensor)])])]"

text \<open>What \<open>splitForSave\<close> makes of \<open>nested_state_dict\<close>.\<close>

definition nested_out :: "(string \<times> mcore_value) list" where
  "nested_out =
     [(''module.decoder.layers.0.w'',
       MTensors [\<lparr> key = ''module.decoder.layers.w'', data = \<lparr> shape = [4], storage = 0 \<rparr>,
                   global_shape = [1, 8], global_offset = [0, 4], axis_fragmentations = [1, 2],
                   replica_id = 0, prepend_axis_num = 1, allow_shape_mismatch = False \<rparr>]),
      (''weight'',
       MDict [(''a'',
         MDict [(''word_embeddings'',
           MTensors [\<lparr> key = ''a.word_embeddings.weight'', data = \<lparr> shape = [4, 6], storage = 1 \<rparr>,
                       global_shape = [8, 6], global_offset = [4, 0], axis_fragmentations = [2, 1],
                       replica_id = 0, prepend_axis_num = 0, allow_shape_mismatch = False \<rparr>])])])]"

text \<open>
  The descriptor of \<open>layer_tensor\<close> as layer 2 of 5, the same with a global extent that
  the fragmentation does not explain, and two loaded buffers of the local shape.
\<close>

definition layer_descriptor :: sharded_tensor where
  "layer_descriptor =
     \<lparr> key = ''module.decoder.layers.w'', data = \<lparr> shape = [4, 6], storage = 1 \<rparr>,
       global_shape = [5, 8, 6], global_offset = [2, 4, 0], axis_fragmentations = [5, 2, 1],
       replica_id = 0, prepend_axis_num = 1, allow_shape_mismatch = False \<rparr>"

definition broken_descriptor :: sharded_tensor where
  "broken_descriptor = layer_descriptor \<lparr> global_shape := [5, 9, 6] \<rparr>"

definition loaded_buffer :: torch_tensor where
  "loaded_buffer = \<lparr> shape = [4, 6], storage = 7 \<rparr>"

definition spare_buffer :: torch_tensor where
  "spare_buffer = \<lparr> shape = [4, 6], storage = 8 \<rparr>"

text \<open>
  A template whose sub-dict \<open>model\<close> expects the tensors \<open>a\<close> and \<open>b\<close> and an object
  \<open>extra\<close>, and a loaded checkpoint whose sub-dict holds \<open>a\<close> only.
\<close>

definition example_object :: sharded_object where
  "example_object =
     \<lparr> obj_key = ''model.extra'', obj_data = ''blob'', obj_global_shape = [1],
       obj_global_offset = [0], obj_replica_id = (0, 0, 0) \<rparr>"

definition model_template :: "(string \<times> template_value) list" where
  "model_template =
     [(''a'', TTensors [layer_descriptor]), (''b'', TTensors [layer_descriptor]),
      (''extra'', TObject example_object)]"

definition nested_template :: "(string \<times> template_value) list" where
  "nested_template = [(''model'', TDict model_template)]"

definition nested_checkpoint :: "(string \<times> ckpt_value) list" where
  "nested_checkpoint = [(''model'', CDict [(''a'', CTensors [loaded_buffer])])]"

text \<open>A translated value with the flag of every descriptor below it set to \<open>b\<close>.\<close>

fun with_flag :: "bool \<Rightarrow> mcore_value \<Rightarrow> mcore_value"
  and with_flag_items :: "bool \<Rightarrow> (string \<times> mcore_value) list \<Rightarrow> (string \<times> mcore_value) list" where
  "with_flag b (MDict kvs) = MDict (with_flag_items b kvs)"
| "with_flag b (MTensors ds) = MTensors (map (\<lambda>d. d \<lparr> allow_shape_mismatch := b \<rparr>) ds)"
| "with_flag b (MObject ob) = MObject ob"
| "with_flag b (MOther x) = MOther x"
| "with_flag_items b [] = []"
| "with_flag_items b ((k, v) # rest) = (k, with_flag b v) # with_flag_items b rest"





text \<open>
  The walk from key \<open>k\<close> of a template dict \<open>t\<close> against the checkpoint value \<open>c\<close> meets a
  key that the checkpoint lacks: \<open>k\<close> is a descriptor-list leaf, or a sub-dict with
  entries, and \<open>c\<close> is a dict without \<open>k\<close>; or \<open>k\<close> is a sub-dict and the walk from one of
  its keys against \<open>c[k]\<close> meets such a key. This follows the spec's words (section
  4.2), not the code.
\<close>

inductive lacks_key :: "ckpt_value \<Rightarrow> (string \<times> template_value) list \<Rightarrow> string \<Rightarrow> bool" where
  leaf: "map_of t k = Some (TTensors sh_tens) \<Longrightarrow> subscript c k = Inl (KeyError k) \<Longrightarrow>
         lacks_key c t k"
| sub_dict: "map_of t k = Some (TDict sub) \<Longrightarrow> sub \<noteq> [] \<Longrightarrow> subscript c k = Inl (KeyError k) \<Longrightarrow>
         lacks_key c t k"
| below: "map_of t k = Some (TDict sub) \<Longrightarrow> subscript c k = Inr ck \<Longrightarrow> kk \<in> fst ` set sub \<Longrightarrow>
         lacks_key ck sub kk \<Longrightarrow> lacks_key c t k"

code_pred lacks_key .

section \<open>Properties\<close>

subsection \<open>What the loops return\<close>

lemma rank_offsets_loop_result:
  "rank_offsets_loop p sh ros seen (gs, go, af) = Inr (gs', go', af') \<Longrightarrow>
     length gs' = length gs \<and> length go' = length go \<and> length af' = length af \<and>
     (\<forall>(a, off, fr) \<in> set ros. a \<notin> set seen \<and> (a < p \<or> a - p < length sh) \<and>
         (a < length gs \<longrightarrow> gs' ! a = fr * local_axis_shape p sh a) \<and>
         (a < length go \<longrightarrow> go' ! a = off * local_axis_shape p sh a) \<and>
         (a < length af \<longrightarrow> af' ! a = fr)) \<and>
     (\<forall>a. a \<notin> fst ` set ros \<longrightarrow> gs' ! a = gs ! a \<and> go' ! a = go ! a \<and> af' ! a = af ! a)"
proof (induction ros arbitrary: seen gs go af)
  case Nil
  then show ?case by simp
next
  case (Cons t ros)
  obtain a off fr where t: "t = (a, off, fr)" by (cases t) auto
  let ?l = "local_axis_shape p sh a"
  from Cons.prems t have ok: "a \<notin> set seen" "a < p \<or> a - p < length sh"
    and rec: "rank_offsets_loop p sh ros (a # seen) (gs[a := fr * ?l], go[a := off * ?l], af[a := fr])
               = Inr (gs', go', af')"
    by (auto split: if_splits)
  note IH = Cons.IH[OF rec]
  have fresh: "a \<notin> fst ` set ros" using IH by force
  show ?case
    unfolding t using IH ok fresh
    by (auto simp: nth_list_update)
qed

lemma from_rank_offsets_fields:
  "from_rank_offsets k ten ros rid p allow = Inr d \<Longrightarrow>
     key d = k \<and> data d = ten \<and> replica_id d = rid \<and> prepend_axis_num d = p \<and>
     allow_shape_mismatch d = allow"
  by (auto simp: from_rank_offsets_def Let_def split: sum.splits prod.splits)

lemma from_rank_offsets_geometry:
  assumes "from_rank_offsets k ten ros rid p allow = Inr d"
  shows "length (global_shape d) = p + length (shape ten)"
    and "length (global_offset d) = p + length (shape ten)"
    and "length (axis_fragmentations d) = p + length (shape ten)"
    and "(a, off, fr) \<in> set ros \<Longrightarrow>
           a < p + length (shape ten) \<and>
           global_shape d ! a = fr * local_axis_shape p (shape ten) a \<and>
           global_offset d ! a = off * local_axis_shape p (shape ten) a \<and>
           axis_fragmentations d ! a = fr"
proof -
  let ?n = "length (shape ten)"
  from assms obtain gs go af where
    loop: "rank_offsets_loop p (shape ten) ros []
             (replicate p 1 @ shape ten, replicate (?n + p) 0, replicate (?n + p) 1) = Inr (gs, go, af)"
    and d: "global_shape d = gs" "global_offset d = go" "axis_fragmentations d = af"
    by (auto simp: from_rank_offsets_def Let_def split: sum.splits prod.splits)
  note R = rank_offsets_loop_result[OF loop]
  show "length (global_shape d) = p + ?n" "length (global_offset d) = p + ?n"
    "length (axis_fragmentations d) = p + ?n"
    using R d by auto
  show "(a, off, fr) \<in> set ros \<Longrightarrow>
           a < p + ?n \<and>
           global_shape d ! a = fr * local_axis_shape p (shape ten) a \<and>
           global_offset d ! a = off * local_axis_shape p (shape ten) a \<and>
           axis_fragmentations d ! a = fr"
  proof -
    assume m: "(a, off, fr) \<in> set ros"
    with R have r: "(a < p \<or> a - p < ?n)" by fastforce
    then have "a < p + ?n" by auto
    with R m d show ?thesis by fastforce
  qed
qed

lemma shard_rank_offsets_result:
  "shard_rank_offsets p m axis_fragm js = Inr ros \<Longrightarrow>
     ros = map (\<lambda>j. (j + p, shard_offsets m ! j div shard_sizes m ! j, axis_fragm ! j)) js \<and>
     (\<forall>j \<in> set js. j < length (shard_offsets m) \<and> j < length (shard_sizes m) \<and> shard_sizes m ! j \<noteq> 0)"
  by (induction js arbitrary: ros) (auto split: if_splits sum.splits)

lemma axis_fragm_of_result:
  "axis_fragm_of gshape ls is = Inr fs \<Longrightarrow>
     fs = map (\<lambda>i. gshape ! i div shard_sizes (metadata (ls ! 0)) ! i) is \<and>
     (\<forall>i \<in> set is. ls \<noteq> [] \<and> i < length (shard_sizes (metadata (ls ! 0))) \<and>
        shard_sizes (metadata (ls ! 0)) ! i \<noteq> 0)"
  by (induction "is" arbitrary: fs) (auto split: if_splits sum.splits list.splits)

lemma shards_loop_result:
  "shards_loop k pre allow axis_fragm n acc ls = Inr ds \<Longrightarrow>
     length ds = length ls \<and>
     (\<forall>i < length ls. \<exists>acc' ros.
        shard_rank_offsets (length pre) (metadata (ls ! i)) axis_fragm [0..<n] = Inr ros \<and>
        from_rank_offsets k (tensor (ls ! i)) (pre @ acc' @ ros) 0 (length pre) allow = Inr (ds ! i))"
proof (induction ls arbitrary: acc ds)
  case Nil
  then show ?case by simp
next
  case (Cons s ls)
  from Cons.prems obtain ros d ds' where
    ros: "shard_rank_offsets (length pre) (metadata s) axis_fragm [0..<n] = Inr ros"
    and d: "from_rank_offsets k (tensor s) (pre @ acc @ ros) 0 (length pre) allow = Inr d"
    and rest: "shards_loop k pre allow axis_fragm n (acc @ ros) ls = Inr ds'"
    and ds: "ds = d # ds'"
    by (auto split: sum.splits)
  note IH = Cons.IH[OF rest]
  show ?case
  proof (intro conjI allI impI)
    show "length ds = length (s # ls)" using IH ds by simp
  next
    fix i assume "i < length (s # ls)"
    then show "\<exists>acc' ros.
        shard_rank_offsets (length pre) (metadata ((s # ls) ! i)) axis_fragm [0..<n] = Inr ros \<and>
        from_rank_offsets k (tensor ((s # ls) ! i)) (pre @ acc' @ ros) 0 (length pre) allow = Inr (ds ! i)"
      using ros d ds IH by (cases i) auto
  qed
qed

text \<open>The descriptor of local shard \<open>i\<close>, field by field.\<close>

lemma torch_to_mcore_length:
  "torch_to_mcore_sharded_tensor k T pre pfx allow = Inr ds \<Longrightarrow> length ds = length (local_shards T)"
  by (auto simp: torch_to_mcore_sharded_tensor_def Let_def split: if_splits sum.splits
           dest: shards_loop_result)

lemma torch_to_mcore_fields:
  assumes "torch_to_mcore_sharded_tensor k T pre pfx allow = Inr ds" and "i < length ds"
  shows "key (ds ! i) = pfx @ k \<and> data (ds ! i) = tensor (local_shards T ! i) \<and>
         replica_id (ds ! i) = 0 \<and> prepend_axis_num (ds ! i) = length pre \<and>
         allow_shape_mismatch (ds ! i) = allow"
proof -
  from assms(1) obtain fs where
    sl: "shards_loop (pfx @ k) pre allow fs (length (meta_size T)) [] (local_shards T) = Inr ds"
    by (auto simp: torch_to_mcore_sharded_tensor_def Let_def split: if_splits sum.splits)
  from shards_loop_result[OF sl] assms(2) obtain acc' ros where
    "from_rank_offsets (pfx @ k) (tensor (local_shards T ! i)) (pre @ acc' @ ros) 0 (length pre) allow
       = Inr (ds ! i)"
    by auto
  from from_rank_offsets_fields[OF this] show ?thesis by simp
qed

lemma torch_to_mcore_axes:
  assumes "torch_to_mcore_sharded_tensor k T pre pfx allow = Inr ds"
    and "i < length ds" and "j < length (meta_size T)"
  shows "length pre + j < length (global_shape (ds ! i))"
    and "j < length (shape (tensor (local_shards T ! i)))"
    and "shard_sizes (metadata (local_shards T ! 0)) ! j \<noteq> 0"
    and "shard_sizes (metadata (local_shards T ! i)) ! j \<noteq> 0"
    and "axis_fragmentations (ds ! i) ! (length pre + j) =
           meta_size T ! j div shard_sizes (metadata (local_shards T ! 0)) ! j"
    and "global_shape (ds ! i) ! (length pre + j) =
           (meta_size T ! j div shard_sizes (metadata (local_shards T ! 0)) ! j) *
           shape (tensor (local_shards T ! i)) ! j"
    and "global_offset (ds ! i) ! (length pre + j) =
           (shard_offsets (metadata (local_shards T ! i)) ! j div
            shard_sizes (metadata (local_shards T ! i)) ! j) *
           shape (tensor (local_shards T ! i)) ! j"
proof -
  let ?ls = "local_shards T" and ?n = "length (meta_size T)" and ?p = "length pre"
  let ?s = "?ls ! i"
  from assms(1) obtain fs where
    fs: "axis_fragm_of (meta_size T) ?ls [0..<?n] = Inr fs"
    and sl: "shards_loop (pfx @ k) pre allow fs ?n [] ?ls = Inr ds"
    by (auto simp: torch_to_mcore_sharded_tensor_def Let_def split: if_splits sum.splits)
  from axis_fragm_of_result[OF fs] assms(3) have
    fsj: "fs ! j = meta_size T ! j div shard_sizes (metadata (?ls ! 0)) ! j"
    and s0: "shard_sizes (metadata (?ls ! 0)) ! j \<noteq> 0"
    by auto
  from shards_loop_result[OF sl] assms(2) obtain acc' ros where
    ros: "shard_rank_offsets ?p (metadata ?s) fs [0..<?n] = Inr ros"
    and d: "from_rank_offsets (pfx @ k) (tensor ?s) (pre @ acc' @ ros) 0 ?p allow = Inr (ds ! i)"
    by auto
  from shard_rank_offsets_result[OF ros] assms(3) have
    mem: "(j + ?p, shard_offsets (metadata ?s) ! j div shard_sizes (metadata ?s) ! j, fs ! j) \<in> set ros"
    and si: "shard_sizes (metadata ?s) ! j \<noteq> 0"
    by auto
  from mem have mem': "(j + ?p, shard_offsets (metadata ?s) ! j div shard_sizes (metadata ?s) ! j, fs ! j)
       \<in> set (pre @ acc' @ ros)" by simp
  note G = from_rank_offsets_geometry[OF d]
  note Gj = G(4)[OF mem']
  have loc: "local_axis_shape ?p (shape (tensor ?s)) (j + ?p) = shape (tensor ?s) ! j"
    by (simp add: local_axis_shape_def)
  show "?p + j < length (global_shape (ds ! i))" using G(1) Gj by simp
  show "j < length (shape (tensor ?s))" using Gj by simp
  show "shard_sizes (metadata (?ls ! 0)) ! j \<noteq> 0" by (rule s0)
  show "shard_sizes (metadata ?s) ! j \<noteq> 0" by (rule si)
  show "axis_fragmentations (ds ! i) ! (?p + j) =
           meta_size T ! j div shard_sizes (metadata (?ls ! 0)) ! j"
    using Gj fsj by (simp add: add.commute)
  show "global_shape (ds ! i) ! (?p + j) =
           (meta_size T ! j div shard_sizes (metadata (?ls ! 0)) ! j) * shape (tensor ?s) ! j"
    using Gj fsj loc by (simp add: add.commute)
  show "global_offset (ds ! i) ! (?p + j) =
           (shard_offsets (metadata ?s) ! j div shard_sizes (metadata ?s) ! j) * shape (tensor ?s) ! j"
    using Gj loc by (simp add: add.commute)
qed

lemma torch_to_mcore_prepend:
  assumes "torch_to_mcore_sharded_tensor k T pre pfx allow = Inr ds"
    and "i < length ds" and "(a, off, fr) \<in> set pre" and "a < length pre"
  shows "global_shape (ds ! i) ! a = fr \<and> global_offset (ds ! i) ! a = off \<and>
         axis_fragmentations (ds ! i) ! a = fr"
proof -
  from assms(1) obtain fs where
    sl: "shards_loop (pfx @ k) pre allow fs (length (meta_size T)) [] (local_shards T) = Inr ds"
    by (auto simp: torch_to_mcore_sharded_tensor_def Let_def split: if_splits sum.splits)
  from shards_loop_result[OF sl] assms(2) obtain acc' ros where
    d: "from_rank_offsets (pfx @ k) (tensor (local_shards T ! i)) (pre @ acc' @ ros) 0 (length pre) allow
       = Inr (ds ! i)"
    by auto
  from assms(3) have "(a, off, fr) \<in> set (pre @ acc' @ ros)" by simp
  from from_rank_offsets_geometry(4)[OF d this] assms(4) show ?thesis
    by (simp add: local_axis_shape_def)
qed

lemma torch_to_mcore_lengths:
  assumes "torch_to_mcore_sharded_tensor k T pre pfx allow = Inr ds" and "i < length ds"
  shows "length (global_shape (ds ! i)) = length pre + length (shape (tensor (local_shards T ! i)))"
    and "length (global_offset (ds ! i)) = length pre + length (shape (tensor (local_shards T ! i)))"
    and "length (axis_fragmentations (ds ! i)) = length pre + length (shape (tensor (local_shards T ! i)))"
proof -
  from assms(1) obtain fs where
    sl: "shards_loop (pfx @ k) pre allow fs (length (meta_size T)) [] (local_shards T) = Inr ds"
    by (auto simp: torch_to_mcore_sharded_tensor_def Let_def split: if_splits sum.splits)
  from shards_loop_result[OF sl] assms(2) obtain acc' ros where
    d: "from_rank_offsets (pfx @ k) (tensor (local_shards T ! i)) (pre @ acc' @ ros) 0 (length pre) allow
       = Inr (ds ! i)"
    by auto
  note G = from_rank_offsets_geometry[OF d]
  show "length (global_shape (ds ! i)) = length pre + length (shape (tensor (local_shards T ! i)))"
    "length (global_offset (ds ! i)) = length pre + length (shape (tensor (local_shards T ! i)))"
    "length (axis_fragmentations (ds ! i)) = length pre + length (shape (tensor (local_shards T ! i)))"
    using G(1-3) by simp_all
qed

subsection \<open>toDialectA\<close>

lemmas toDialectA_defs =
  torch_to_mcore_sharded_tensor_def same_placement_def from_rank_offsets_def local_axis_shape_def

text \<open>
  Claim C3, as the code has it. Whenever \<open>toDialectA\<close> returns, it returns one descriptor
  per local shard record, each with \<open>prepend_axis_num = len(prependOffsets)\<close>. On every
  computed axis \<open>j\<close>, which sits at position \<open>len(prependOffsets) + j\<close>, the fragmentation
  is the declared global extent floor-divided by the extent of the first local shard
  record (the flag plays no part and nothing checks that the division is exact); the
  global shape is that fragmentation times the buffer's extent, which is the declared
  extent when the shard extent divides it and the buffer has the first record's extent;
  the global offset is the floor of shard offset by shard extent, times the buffer's
  extent. A prepend offset \<open>(a, r, f)\<close> on a leading axis has local extent 1: global
  shape \<open>f\<close>, global offset \<open>r\<close>, fragmentation \<open>f\<close>.
\<close>

theorem toDialectA_descriptor_geometry:
  assumes "torch_to_mcore_sharded_tensor k T prepend_offsets pfx allow = Inr ds"
  shows "length ds = length (local_shards T) \<and>
    (\<forall>i < length ds.
       prepend_axis_num (ds ! i) = length prepend_offsets \<and>
       (\<forall>j < length (meta_size T).
          axis_fragmentations (ds ! i) ! (length prepend_offsets + j) =
            meta_size T ! j div shard_sizes (metadata (local_shards T ! 0)) ! j \<and>
          global_shape (ds ! i) ! (length prepend_offsets + j) =
            (meta_size T ! j div shard_sizes (metadata (local_shards T ! 0)) ! j) *
            shape (tensor (local_shards T ! i)) ! j \<and>
          global_offset (ds ! i) ! (length prepend_offsets + j) =
            (shard_offsets (metadata (local_shards T ! i)) ! j div
             shard_sizes (metadata (local_shards T ! i)) ! j) *
            shape (tensor (local_shards T ! i)) ! j \<and>
          (shard_sizes (metadata (local_shards T ! 0)) ! j dvd meta_size T ! j \<and>
           shape (tensor (local_shards T ! i)) ! j = shard_sizes (metadata (local_shards T ! 0)) ! j
             \<longrightarrow> global_shape (ds ! i) ! (length prepend_offsets + j) = meta_size T ! j)) \<and>
       (\<forall>(a, r, f) \<in> set prepend_offsets. a < length prepend_offsets \<longrightarrow>
          global_shape (ds ! i) ! a = f * 1 \<and> global_offset (ds ! i) ! a = r * 1 \<and>
          axis_fragmentations (ds ! i) ! a = f))"
proof (intro conjI allI impI ballI)
  show "length ds = length (local_shards T)"
    using assms by (rule torch_to_mcore_length)
next
  fix i assume i: "i < length ds"
  show "prepend_axis_num (ds ! i) = length prepend_offsets"
    using torch_to_mcore_fields[OF assms i] by simp
next
  fix i j assume i: "i < length ds" and j: "j < length (meta_size T)"
  note A = torch_to_mcore_axes[OF assms i j]
  show "axis_fragmentations (ds ! i) ! (length prepend_offsets + j) =
            meta_size T ! j div shard_sizes (metadata (local_shards T ! 0)) ! j"
    by (rule A(5))
  show gs: "global_shape (ds ! i) ! (length prepend_offsets + j) =
            (meta_size T ! j div shard_sizes (metadata (local_shards T ! 0)) ! j) *
            shape (tensor (local_shards T ! i)) ! j"
    by (rule A(6))
  show "global_offset (ds ! i) ! (length prepend_offsets + j) =
            (shard_offsets (metadata (local_shards T ! i)) ! j div
             shard_sizes (metadata (local_shards T ! i)) ! j) *
            shape (tensor (local_shards T ! i)) ! j"
    by (rule A(7))
  assume "shard_sizes (metadata (local_shards T ! 0)) ! j dvd meta_size T ! j \<and>
           shape (tensor (local_shards T ! i)) ! j = shard_sizes (metadata (local_shards T ! 0)) ! j"
  then show "global_shape (ds ! i) ! (length prepend_offsets + j) = meta_size T ! j"
    using gs by simp
next
  fix i x assume i: "i < length ds" and x: "x \<in> set prepend_offsets"
  obtain a r f where xe: "x = (a, r, f)" by (cases x) auto
  show "case x of (a, r, f) \<Rightarrow> a < length prepend_offsets \<longrightarrow>
          global_shape (ds ! i) ! a = f * 1 \<and> global_offset (ds ! i) ! a = r * 1 \<and>
          axis_fragmentations (ds ! i) ! a = f"
    using torch_to_mcore_prepend[OF assms i, of a r f] x xe by simp
qed

text \<open>
  The theorem at \<open>layer_tensor\<close> with the prepend offset \<open>(0, 2, 5)\<close>: position 0 of the
  global shape is 5 and of the global offset 2, ahead of the two computed axes.
\<close>

theorem toDialectA_descriptor_geometry_witness:
  "torch_to_mcore_sharded_tensor ''w'' layer_tensor [(0, 2, 5)] [] False =
     Inr [\<lparr> key = ''w'', data = \<lparr> shape = [4, 6], storage = 1 \<rparr>, global_shape = [5, 8, 6],
            global_offset = [2, 4, 0], axis_fragmentations = [5, 2, 1], replica_id = 0,
            prepend_axis_num = 1, allow_shape_mismatch = False \<rparr>] \<and>
   length (local_shards layer_tensor) = 1 \<and>
   [5, 8, 6] ! 0 = (5::int) * 1 \<and> [2, 4, 0] ! 0 = (2::int) * 1 \<and>
   [5, 8, 6 :: int] ! (1 + 0) = meta_size layer_tensor ! 0"
proof -
  have h: "torch_to_mcore_sharded_tensor ''w'' layer_tensor [(0, 2, 5)] [] False =
     Inr [\<lparr> key = ''w'', data = \<lparr> shape = [4, 6], storage = 1 \<rparr>, global_shape = [5, 8, 6],
            global_offset = [2, 4, 0], axis_fragmentations = [5, 2, 1], replica_id = 0,
            prepend_axis_num = 1, allow_shape_mismatch = False \<rparr>]"
    by (simp add: toDialectA_defs layer_tensor_def)
  from toDialectA_descriptor_geometry[OF h] show ?thesis
    using h by (simp add: layer_tensor_def)
qed

text \<open>
  Against C3 as stated: the middle chunk of the vector of 10 entries is translated
  without any error and without the flag, and its descriptor has global shape 8, not
  the declared size 10.
\<close>

theorem toDialectA_global_shape_counterexample:
  "torch_to_mcore_sharded_tensor ''w'' uneven_tensor [] [] False =
     Inr [\<lparr> key = ''w'', data = \<lparr> shape = [4], storage = 0 \<rparr>, global_shape = [8],
            global_offset = [4], axis_fragmentations = [2], replica_id = 0,
            prepend_axis_num = 0, allow_shape_mismatch = False \<rparr>] \<and>
   meta_size uneven_tensor = [10]"
  by (simp add: toDialectA_defs uneven_tensor_def)

text \<open>
  Claim C9 at \<open>two_device_tensor\<close>: the placements differ, no descriptor is produced,
  and the exception that leaves the function is the AttributeError of the assertion's
  message expression, not an AssertionError.
\<close>

theorem toDialectA_placement_failure:
  "\<not> same_placement (local_shards two_device_tensor) \<and>
   torch_to_mcore_sharded_tensor ''w'' two_device_tensor [] [] False = Inl AttributeError"
  by (simp add: toDialectA_defs two_device_tensor_def)

subsection \<open>splitForSave\<close>

lemma torch_to_mcore_all_fields:
  assumes "torch_to_mcore_sharded_tensor k T pre pfx allow = Inr ds" and "d \<in> set ds"
  shows "replica_id d = 0 \<and> prepend_axis_num d = length pre \<and> allow_shape_mismatch d = allow"
proof -
  from assms(2) obtain i where "i < length ds" "d = ds ! i" by (auto simp: in_set_conv_nth)
  with torch_to_mcore_fields[OF assms(1), of i] show ?thesis by simp
qed

lemma sharded_object_replica:
  "torch_to_mcore_sharded_object dp_rank k obj offs pfx = Inr ob \<Longrightarrow>
     obj_replica_id ob = (0, 0, dp_rank)"
  by (auto simp: torch_to_mcore_sharded_object_def Let_def split: sum.splits prod.splits)

lemma convert_save_leaves:
  "convert_save dp_rank sh_key v pre pfx allow = Inr nv \<Longrightarrow>
     (\<forall>d \<in> set (tensors_of nv). replica_id d = 0 \<and> prepend_axis_num d = length pre \<and>
        allow_shape_mismatch d = allow) \<and>
     (\<forall>ob \<in> set (objects_of nv). obj_replica_id ob = (0, 0, dp_rank))"
  "convert_save_items dp_rank sh_key kvs pre pfx allow = Inr nkvs \<Longrightarrow>
     (\<forall>d \<in> set (tensors_of_items nkvs). replica_id d = 0 \<and> prepend_axis_num d = length pre \<and>
        allow_shape_mismatch d = allow) \<and>
     (\<forall>ob \<in> set (objects_of_items nkvs). obj_replica_id ob = (0, 0, dp_rank))"
proof (induction dp_rank sh_key v pre pfx allow and dp_rank sh_key kvs pre pfx allow
       arbitrary: nv and nkvs rule: convert_save_convert_save_items.induct)
  case (1 dp_rank sh_key v prepend_offsets pfx allow)
  then show ?case by (auto split: sum.splits)
next
  case (2 dp_rank sh_key v prepend_offsets pfx allow)
  then show ?case by (auto split: sum.splits dest: torch_to_mcore_all_fields)
next
  case (3 dp_rank sh_key v prepend_offsets pfx allow)
  then show ?case by (auto split: sum.splits dest: sharded_object_replica)
next
  case (4 dp_rank sh_key x prepend_offsets pfx allow)
  then show ?case by auto
next
  case (5 dp_rank sh_key prepend_offsets pfx allow)
  then show ?case by auto
next
  case (6 dp_rank sh_key kk vv rest prepend_offsets pfx allow)
  from "6.prems" obtain nv' rest' where
    a: "convert_save dp_rank sh_key vv prepend_offsets (pfx @ kk @ ''.'') allow = Inr nv'"
    and b: "convert_save_items dp_rank sh_key rest prepend_offsets pfx allow = Inr rest'"
    and c: "nkvs = (kk, nv') # rest'"
    by (auto split: sum.splits)
  from "6.IH"(1)[OF a] "6.IH"(2)[OF a b] c show ?case by auto
qed

lemma convert_entry_leaves:
  assumes "convert_entry dp_rank num_layers pfx k v = Inr nv"
  shows "(\<forall>d \<in> set (tensors_of nv). replica_id d = 0 \<and>
            prepend_axis_num d = (if startswith k layers_prefix then 1 else 0) \<and>
            allow_shape_mismatch d = endswith k vocab_suffix) \<and>
         (\<forall>ob \<in> set (objects_of nv). obj_replica_id ob = (0, 0, dp_rank))"
proof (cases "startswith k layers_prefix")
  case True
  with assms obtain s parts n where
    "convert_save dp_rank (join_dot parts) v [(0, n, num_layers)] pfx (endswith k vocab_suffix) = Inr nv"
    by (auto simp: convert_entry_def Let_def split: sum.splits prod.splits)
  from convert_save_leaves(1)[OF this] True show ?thesis by simp
next
  case False
  with assms have
    "convert_save dp_rank k v [] pfx (endswith k vocab_suffix) = Inr nv"
    by (auto simp: convert_entry_def Let_def)
  from convert_save_leaves(1)[OF this] False show ?thesis by simp
qed

lemma entries_loop_result:
  "entries_loop dp_rank num_layers pfx sd = Inr out \<Longrightarrow>
     length out = length sd \<and>
     (\<forall>i < length sd. fst (out ! i) = fst (sd ! i) \<and>
        convert_entry dp_rank num_layers pfx (fst (sd ! i)) (snd (sd ! i)) = Inr (snd (out ! i)))"
proof (induction sd arbitrary: out)
  case Nil
  then show ?case by simp
next
  case (Cons e sd)
  obtain k v where e: "e = (k, v)" by (cases e) auto
  from Cons.prems e obtain nv rest where
    a: "convert_entry dp_rank num_layers pfx k v = Inr nv"
    and b: "entries_loop dp_rank num_layers pfx sd = Inr rest"
    and c: "out = (k, nv) # rest"
    by (auto split: sum.splits)
  note IH = Cons.IH[OF b]
  have len: "length out = length (e # sd)" using IH c by simp
  have "fst (out ! i) = fst ((e # sd) ! i) \<and>
        convert_entry dp_rank num_layers pfx (fst ((e # sd) ! i)) (snd ((e # sd) ! i)) = Inr (snd (out ! i))"
    if "i < length (e # sd)" for i
    using that a c e IH by (cases i) auto
  with len show ?case by blast
qed

lemma pyt_to_mcore_entries:
  "pyt_to_mcore_state_dict dp_rank sd pfx = Inr out \<Longrightarrow>
     \<exists>num_layers. resolve_num_layers sd = Inr num_layers \<and> num_layers \<noteq> 0 \<and>
       entries_loop dp_rank num_layers pfx sd = Inr out"
  by (auto simp: pyt_to_mcore_state_dict_def split: sum.splits if_splits)

lemma tensors_of_items_mem:
  "d \<in> set (tensors_of_items kvs) \<longleftrightarrow> (\<exists>i < length kvs. d \<in> set (tensors_of (snd (kvs ! i))))"
proof (induction kvs)
  case Nil
  then show ?case by simp
next
  case (Cons e kvs)
  obtain k v where e: "e = (k, v)" by (cases e) auto
  show ?case
  proof
    assume "d \<in> set (tensors_of_items (e # kvs))"
    then consider "d \<in> set (tensors_of v)" | "d \<in> set (tensors_of_items kvs)" using e by auto
    then show "\<exists>i < length (e # kvs). d \<in> set (tensors_of (snd ((e # kvs) ! i)))"
    proof cases
      case 1
      then have "d \<in> set (tensors_of (snd ((e # kvs) ! 0)))" using e by simp
      then show ?thesis by blast
    next
      case 2
      with Cons.IH obtain i where "i < length kvs" "d \<in> set (tensors_of (snd (kvs ! i)))" by auto
      then have "Suc i < length (e # kvs) \<and> d \<in> set (tensors_of (snd ((e # kvs) ! Suc i)))" by simp
      then show ?thesis by blast
    qed
  next
    assume "\<exists>i < length (e # kvs). d \<in> set (tensors_of (snd ((e # kvs) ! i)))"
    then obtain i where i: "i < length (e # kvs)" "d \<in> set (tensors_of (snd ((e # kvs) ! i)))" by auto
    show "d \<in> set (tensors_of_items (e # kvs))"
    proof (cases i)
      case 0
      with i e show ?thesis by simp
    next
      case (Suc m)
      with i have "m < length kvs" "d \<in> set (tensors_of (snd (kvs ! m)))" by auto
      with Cons.IH have "d \<in> set (tensors_of_items kvs)" by auto
      with e show ?thesis by simp
    qed
  qed
qed

lemma objects_of_items_mem:
  "ob \<in> set (objects_of_items kvs) \<longleftrightarrow> (\<exists>i < length kvs. ob \<in> set (objects_of (snd (kvs ! i))))"
proof (induction kvs)
  case Nil
  then show ?case by simp
next
  case (Cons e kvs)
  obtain k v where e: "e = (k, v)" by (cases e) auto
  show ?case
  proof
    assume "ob \<in> set (objects_of_items (e # kvs))"
    then consider "ob \<in> set (objects_of v)" | "ob \<in> set (objects_of_items kvs)" using e by auto
    then show "\<exists>i < length (e # kvs). ob \<in> set (objects_of (snd ((e # kvs) ! i)))"
    proof cases
      case 1
      then have "ob \<in> set (objects_of (snd ((e # kvs) ! 0)))" using e by simp
      then show ?thesis by blast
    next
      case 2
      with Cons.IH obtain i where "i < length kvs" "ob \<in> set (objects_of (snd (kvs ! i)))" by auto
      then have "Suc i < length (e # kvs) \<and> ob \<in> set (objects_of (snd ((e # kvs) ! Suc i)))" by simp
      then show ?thesis by blast
    qed
  next
    assume "\<exists>i < length (e # kvs). ob \<in> set (objects_of (snd ((e # kvs) ! i)))"
    then obtain i where i: "i < length (e # kvs)" "ob \<in> set (objects_of (snd ((e # kvs) ! i)))" by auto
    show "ob \<in> set (objects_of_items (e # kvs))"
    proof (cases i)
      case 0
      with i e show ?thesis by simp
    next
      case (Suc m)
      with i have "m < length kvs" "ob \<in> set (objects_of (snd (kvs ! m)))" by auto
      with Cons.IH have "ob \<in> set (objects_of_items kvs)" by auto
      with e show ?thesis by simp
    qed
  qed
qed

text \<open>
  Claim C10. Every descriptor \<open>splitForSave\<close> leaves in the state dict, at any depth,
  has replica id 0, whatever the data-parallel rank; every object shard has the replica
  id \<open>(0, 0, dp_rank)\<close>.
\<close>

theorem splitForSave_replica_ids:
  assumes "pyt_to_mcore_state_dict dp_rank state_dict pfx = Inr out"
  shows "(\<forall>d \<in> set (tensors_of (MDict out)). replica_id d = 0) \<and>
         (\<forall>ob \<in> set (objects_of (MDict out)). obj_replica_id ob = (0, 0, dp_rank))"
proof (intro conjI ballI)
  from pyt_to_mcore_entries[OF assms] obtain num_layers where
    loop: "entries_loop dp_rank num_layers pfx state_dict = Inr out" by auto
  note E = entries_loop_result[OF loop]
  {
    fix d assume "d \<in> set (tensors_of (MDict out))"
    then obtain i where i: "i < length out" "d \<in> set (tensors_of (snd (out ! i)))"
      by (auto simp: tensors_of_items_mem)
    with E have "convert_entry dp_rank num_layers pfx (fst (state_dict ! i)) (snd (state_dict ! i))
        = Inr (snd (out ! i))" by simp
    from convert_entry_leaves[OF this] i show "replica_id d = 0" by simp
  }
  {
    fix ob assume "ob \<in> set (objects_of (MDict out))"
    then obtain i where i: "i < length out" "ob \<in> set (objects_of (snd (out ! i)))"
      by (auto simp: objects_of_items_mem)
    with E have "convert_entry dp_rank num_layers pfx (fst (state_dict ! i)) (snd (state_dict ! i))
        = Inr (snd (out ! i))" by simp
    from convert_entry_leaves[OF this] i show "obj_replica_id ob = (0, 0, dp_rank)" by simp
  }
qed

lemmas string_defs =
  startswith_def endswith_def layers_prefix_def vocab_suffix_def layer_index_def py_nth_def
  py_pop_def py_int_def py_strip_def is_space_def is_digit_def digit_val_def

lemmas splitForSave_defs =
  pyt_to_mcore_state_dict_def resolve_num_layers_def convert_entry_def
  torch_to_mcore_sharded_object_def get_extra_state_offsets_def

text \<open>
  The theorem at \<open>layer_state_dict\<close> on data-parallel rank 3: the weight's descriptor
  has replica id 0, the extra state's object shard \<open>(0, 0, 3)\<close>.
\<close>

theorem splitForSave_replica_ids_witness:
  "pyt_to_mcore_state_dict 3 layer_state_dict [] =
     Inr [(''module.decoder.layers.2.w'',
           MTensors [\<lparr> key = ''module.decoder.layers.w'', data = \<lparr> shape = [4, 6], storage = 1 \<rparr>,
                       global_shape = [5, 8, 6], global_offset = [2, 4, 0],
                       axis_fragmentations = [5, 2, 1], replica_id = 0, prepend_axis_num = 1,
                       allow_shape_mismatch = False \<rparr>]),
          (''module.decoder.layers.4._extra_state'',
           MObject \<lparr> obj_key = ''module.decoder.layers._extra_state'', obj_data = ''blob'',
                     obj_global_shape = [5], obj_global_offset = [4],
                     obj_replica_id = (0, 0, 3) \<rparr>)]"
proof -
  have h: "pyt_to_mcore_state_dict 3 layer_state_dict [] =
     Inr [(''module.decoder.layers.2.w'',
           MTensors [\<lparr> key = ''module.decoder.layers.w'', data = \<lparr> shape = [4, 6], storage = 1 \<rparr>,
                       global_shape = [5, 8, 6], global_offset = [2, 4, 0],
                       axis_fragmentations = [5, 2, 1], replica_id = 0, prepend_axis_num = 1,
                       allow_shape_mismatch = False \<rparr>]),
          (''module.decoder.layers.4._extra_state'',
           MObject \<lparr> obj_key = ''module.decoder.layers._extra_state'', obj_data = ''blob'',
                     obj_global_shape = [5], obj_global_offset = [4],
                     obj_replica_id = (0, 0, 3) \<rparr>)]"
    by (simp add: splitForSave_defs toDialectA_defs string_defs layer_state_dict_def layer_tensor_def)
  from splitForSave_replica_ids[OF h] show ?thesis using h by simp
qed

lemma num_layers_loop_no_layer_keys:
  "\<forall>k \<in> set ks. \<not> startswith k layers_prefix \<Longrightarrow> num_layers_loop n ks = Inr n"
  by (induction ks arbitrary: n) auto

text \<open>
  Claim C6, as the code has it. The assertion \<open>num_layers != 0\<close> stands before the
  second loop: a state dict without a key that starts with the layer prefix is
  rejected with an assertion failure, whatever it holds. When \<open>splitForSave\<close> returns,
  some key starts with the layer prefix, the keys are the ones given, and every entry
  whose top-level key does not start with the layer prefix was converted under its own
  key with the empty sequence of prepend offsets.
\<close>

theorem splitForSave_requires_layers:
  "(\<not> (\<exists>k \<in> fst ` set state_dict. startswith k layers_prefix) \<longrightarrow>
      pyt_to_mcore_state_dict dp_rank state_dict pfx = Inl (AssertionError [])) \<and>
   (pyt_to_mcore_state_dict dp_rank state_dict pfx = Inr out \<longrightarrow>
      (\<exists>k \<in> fst ` set state_dict. startswith k layers_prefix) \<and>
      length out = length state_dict \<and>
      (\<forall>i < length state_dict. \<not> startswith (fst (state_dict ! i)) layers_prefix \<longrightarrow>
         fst (out ! i) = fst (state_dict ! i) \<and>
         convert_save dp_rank (fst (state_dict ! i)) (snd (state_dict ! i)) [] pfx
           (endswith (fst (state_dict ! i)) vocab_suffix) = Inr (snd (out ! i)) \<and>
         (\<forall>d \<in> set (tensors_of (snd (out ! i))). prepend_axis_num d = 0)))"
proof (intro conjI impI)
  assume "\<not> (\<exists>k \<in> fst ` set state_dict. startswith k layers_prefix)"
  then have "resolve_num_layers state_dict = Inr 0"
    by (simp add: resolve_num_layers_def num_layers_loop_no_layer_keys)
  then show "pyt_to_mcore_state_dict dp_rank state_dict pfx = Inl (AssertionError [])"
    by (simp add: pyt_to_mcore_state_dict_def)
next
  assume ok: "pyt_to_mcore_state_dict dp_rank state_dict pfx = Inr out"
  from pyt_to_mcore_entries[OF ok] obtain num_layers where
    n: "resolve_num_layers state_dict = Inr num_layers" "num_layers \<noteq> 0"
    and loop: "entries_loop dp_rank num_layers pfx state_dict = Inr out" by auto
  show "\<exists>k \<in> fst ` set state_dict. startswith k layers_prefix"
  proof (rule ccontr)
    assume "\<not> (\<exists>k \<in> fst ` set state_dict. startswith k layers_prefix)"
    then have "resolve_num_layers state_dict = Inr 0"
      by (simp add: resolve_num_layers_def num_layers_loop_no_layer_keys)
    with n show False by simp
  qed
  note E = entries_loop_result[OF loop]
  show "length out = length state_dict" using E by simp
  show "\<forall>i < length state_dict. \<not> startswith (fst (state_dict ! i)) layers_prefix \<longrightarrow>
         fst (out ! i) = fst (state_dict ! i) \<and>
         convert_save dp_rank (fst (state_dict ! i)) (snd (state_dict ! i)) [] pfx
           (endswith (fst (state_dict ! i)) vocab_suffix) = Inr (snd (out ! i)) \<and>
         (\<forall>d \<in> set (tensors_of (snd (out ! i))). prepend_axis_num d = 0)"
  proof (intro allI impI)
    fix i assume i: "i < length state_dict"
      and nl: "\<not> startswith (fst (state_dict ! i)) layers_prefix"
    from E i have ce: "convert_entry dp_rank num_layers pfx (fst (state_dict ! i)) (snd (state_dict ! i))
        = Inr (snd (out ! i))" and k: "fst (out ! i) = fst (state_dict ! i)" by auto
    from ce nl have cs: "convert_save dp_rank (fst (state_dict ! i)) (snd (state_dict ! i)) [] pfx
           (endswith (fst (state_dict ! i)) vocab_suffix) = Inr (snd (out ! i))"
      by (simp add: convert_entry_def Let_def)
    from convert_entry_leaves[OF ce] nl
    have "\<forall>d \<in> set (tensors_of (snd (out ! i))). prepend_axis_num d = 0" by simp
    with k cs show "fst (out ! i) = fst (state_dict ! i) \<and>
         convert_save dp_rank (fst (state_dict ! i)) (snd (state_dict ! i)) [] pfx
           (endswith (fst (state_dict ! i)) vocab_suffix) = Inr (snd (out ! i)) \<and>
         (\<forall>d \<in> set (tensors_of (snd (out ! i))). prepend_axis_num d = 0)" by simp
  qed
qed

text \<open>
  Against C6 as stated: no key of \<open>embedding_state_dict\<close> matches the layer-stack
  convention, and \<open>splitForSave\<close> does not succeed on it.
\<close>

theorem splitForSave_no_layers_counterexample:
  "\<not> startswith ''module.embedding.word_embeddings.weight'' layers_prefix \<and>
   pyt_to_mcore_state_dict 0 embedding_state_dict [] = Inl (AssertionError [])"
  by (simp add: splitForSave_defs string_defs embedding_state_dict_def)

lemma nested_state_dict_result:
  "pyt_to_mcore_state_dict 0 nested_state_dict [] = Inr nested_out"
  by (simp add: splitForSave_defs toDialectA_defs string_defs nested_state_dict_def
        nested_out_def layer_tensor_def uneven_tensor_def)

text \<open>
  The theorem at both kinds of input: \<open>embedding_state_dict\<close> is rejected, and in
  \<open>nested_state_dict\<close> the entry \<open>weight\<close> is converted with no prepend offset.
\<close>

theorem splitForSave_requires_layers_witness:
  "pyt_to_mcore_state_dict 0 embedding_state_dict [] = Inl (AssertionError []) \<and>
   pyt_to_mcore_state_dict 0 nested_state_dict [] = Inr nested_out \<and>
   convert_save 0 ''weight'' (snd (nested_state_dict ! 1)) [] [] False = Inr (snd (nested_out ! 1)) \<and>
   map prepend_axis_num (tensors_of (snd (nested_out ! 1))) = [0]"
proof -
  have a: "\<not> (\<exists>k \<in> fst ` set embedding_state_dict. startswith k layers_prefix)"
    by (simp add: embedding_state_dict_def string_defs)
  have b: "1 < length nested_state_dict"
    "\<not> startswith (fst (nested_state_dict ! 1)) layers_prefix"
    "fst (nested_state_dict ! 1) = ''weight''"
    "endswith ''weight'' vocab_suffix = False"
    by (simp_all add: nested_state_dict_def string_defs)
  from splitForSave_requires_layers[of embedding_state_dict 0 "[]" nested_out] a
  have 1: "pyt_to_mcore_state_dict 0 embedding_state_dict [] = Inl (AssertionError [])"
    by blast
  from splitForSave_requires_layers[of nested_state_dict 0 "[]" nested_out]
    nested_state_dict_result
  have "\<forall>i < length nested_state_dict. \<not> startswith (fst (nested_state_dict ! i)) layers_prefix \<longrightarrow>
         fst (nested_out ! i) = fst (nested_state_dict ! i) \<and>
         convert_save 0 (fst (nested_state_dict ! i)) (snd (nested_state_dict ! i)) [] []
           (endswith (fst (nested_state_dict ! i)) vocab_suffix) = Inr (snd (nested_out ! i)) \<and>
         (\<forall>d \<in> set (tensors_of (snd (nested_out ! i))). prepend_axis_num d = 0)"
    by blast
  with b(1,2) have "convert_save 0 (fst (nested_state_dict ! 1)) (snd (nested_state_dict ! 1)) [] []
           (endswith (fst (nested_state_dict ! 1)) vocab_suffix) = Inr (snd (nested_out ! 1)) \<and>
         (\<forall>d \<in> set (tensors_of (snd (nested_out ! 1))). prepend_axis_num d = 0)"
    by blast
  with b(3,4)
  have 2: "convert_save 0 ''weight'' (snd (nested_state_dict ! 1)) [] [] False = Inr (snd (nested_out ! 1)) \<and>
   (\<forall>d \<in> set (tensors_of (snd (nested_out ! 1))). prepend_axis_num d = 0)"
    by simp
  have 3: "map prepend_axis_num (tensors_of (snd (nested_out ! 1))) = [0]"
    by (simp add: nested_out_def)
  from 1 2 3 nested_state_dict_result show ?thesis by blast
qed

text \<open>No step of \<open>splitForSave\<close> raises a shape error.\<close>

lemma rank_offsets_loop_no_shape_error:
  "rank_offsets_loop p sh ros seen st \<noteq> Inl ShapeMismatchError"
  by (induction p sh ros seen st rule: rank_offsets_loop.induct) auto

lemma axis_fragm_of_no_shape_error:
  "axis_fragm_of gshape ls is \<noteq> Inl ShapeMismatchError"
  by (induction "is") (auto split: list.splits sum.splits)

lemma shard_rank_offsets_no_shape_error:
  "shard_rank_offsets p m fs js \<noteq> Inl ShapeMismatchError"
  by (induction js) (auto split: sum.splits)

lemma from_rank_offsets_no_shape_error:
  "from_rank_offsets k ten ros rid p allow \<noteq> Inl ShapeMismatchError"
  using rank_offsets_loop_no_shape_error
  by (auto simp: from_rank_offsets_def Let_def split: sum.splits prod.splits)

lemma shards_loop_no_shape_error:
  "shards_loop k pre allow fs n acc ls \<noteq> Inl ShapeMismatchError"
  using shard_rank_offsets_no_shape_error from_rank_offsets_no_shape_error
  by (induction ls arbitrary: acc) (auto split: sum.splits)

lemma torch_to_mcore_no_shape_error:
  "torch_to_mcore_sharded_tensor k T pre pfx allow \<noteq> Inl ShapeMismatchError"
  using axis_fragm_of_no_shape_error shards_loop_no_shape_error
  by (auto simp: torch_to_mcore_sharded_tensor_def Let_def split: sum.splits)

lemma sharded_object_no_shape_error:
  "torch_to_mcore_sharded_object dp_rank k obj offs pfx \<noteq> Inl ShapeMismatchError"
  by (auto simp: torch_to_mcore_sharded_object_def get_extra_state_offsets_def Let_def
           split: sum.splits prod.splits if_splits)

lemma convert_save_no_shape_error:
  "convert_save dp_rank sh_key v pre pfx allow \<noteq> Inl ShapeMismatchError"
  "convert_save_items dp_rank sh_key kvs pre pfx allow \<noteq> Inl ShapeMismatchError"
  using torch_to_mcore_no_shape_error sharded_object_no_shape_error
  by (induction dp_rank sh_key v pre pfx allow and dp_rank sh_key kvs pre pfx allow
      rule: convert_save_convert_save_items.induct) (auto split: sum.splits)

lemma py_int_no_shape_error: "py_int s \<noteq> Inl ShapeMismatchError"
  by (auto simp: py_int_def Let_def split: option.splits)

lemma convert_entry_no_shape_error:
  "convert_entry dp_rank num_layers pfx k v \<noteq> Inl ShapeMismatchError"
  using convert_save_no_shape_error(1) py_int_no_shape_error
  by (auto simp: convert_entry_def py_pop_def Let_def split: sum.splits prod.splits if_splits)

lemma entries_loop_no_shape_error:
  "entries_loop dp_rank num_layers pfx sd \<noteq> Inl ShapeMismatchError"
  using convert_entry_no_shape_error
  by (induction sd) (auto split: sum.splits)

lemma num_layers_loop_no_shape_error:
  "num_layers_loop n ks \<noteq> Inl ShapeMismatchError"
  using py_int_no_shape_error
  by (induction ks arbitrary: n) (auto simp: layer_index_def py_nth_def split: sum.splits if_splits)

text \<open>The flag reaches the descriptor's field and nothing else.\<close>

lemma from_rank_offsets_flag:
  "from_rank_offsets k ten ros rid p allow =
     (case from_rank_offsets k ten ros rid p allow' of
        Inl e \<Rightarrow> Inl e
      | Inr d \<Rightarrow> Inr (d \<lparr> allow_shape_mismatch := allow \<rparr>))"
  by (simp add: from_rank_offsets_def Let_def split: sum.splits prod.splits)

lemma shards_loop_flag:
  "shards_loop k pre allow fs n acc ls =
     (case shards_loop k pre allow' fs n acc ls of
        Inl e \<Rightarrow> Inl e
      | Inr ds \<Rightarrow> Inr (map (\<lambda>d. d \<lparr> allow_shape_mismatch := allow \<rparr>) ds))"
proof (induction ls arbitrary: acc)
  case Nil
  then show ?case by simp
next
  case (Cons s ls)
  show ?case
  proof (cases "shard_rank_offsets (length pre) (metadata s) fs [0..<n]")
    case (Inl e)
    then show ?thesis by simp
  next
    case (Inr ros)
    note F = from_rank_offsets_flag[of k "tensor s" "pre @ acc @ ros" 0 "length pre" allow allow']
    show ?thesis
    proof (cases "from_rank_offsets k (tensor s) (pre @ acc @ ros) 0 (length pre) allow'")
      case (Inl e)
      with F Inr show ?thesis by simp
    next
      case d: (Inr d)
      with F have d': "from_rank_offsets k (tensor s) (pre @ acc @ ros) 0 (length pre) allow
          = Inr (d \<lparr> allow_shape_mismatch := allow \<rparr>)" by simp
      show ?thesis
        using Inr d d' Cons.IH[of "acc @ ros"] by (simp split: sum.splits)
    qed
  qed
qed

lemma torch_to_mcore_flag:
  "torch_to_mcore_sharded_tensor k T pre pfx allow =
     (case torch_to_mcore_sharded_tensor k T pre pfx allow' of
        Inl e \<Rightarrow> Inl e
      | Inr ds \<Rightarrow> Inr (map (\<lambda>d. d \<lparr> allow_shape_mismatch := allow \<rparr>) ds))"
  using shards_loop_flag[of "pfx @ k" pre allow _ "length (meta_size T)" "[]" "local_shards T" allow']
  by (simp add: torch_to_mcore_sharded_tensor_def Let_def split: sum.splits)

lemma convert_save_flag:
  "convert_save dp_rank sh_key v pre pfx allow =
     (case convert_save dp_rank sh_key v pre pfx allow' of
        Inl e \<Rightarrow> Inl e
      | Inr nv \<Rightarrow> Inr (with_flag allow nv))"
  "convert_save_items dp_rank sh_key kvs pre pfx allow =
     (case convert_save_items dp_rank sh_key kvs pre pfx allow' of
        Inl e \<Rightarrow> Inl e
      | Inr nkvs \<Rightarrow> Inr (with_flag_items allow nkvs))"
proof (induction dp_rank sh_key v pre pfx allow and dp_rank sh_key kvs pre pfx allow
       rule: convert_save_convert_save_items.induct)
  case (1 dp_rank sh_key v prepend_offsets pfx allow)
  then show ?case by (simp split: sum.splits)
next
  case (2 dp_rank sh_key v prepend_offsets pfx allow)
  show ?case
    using torch_to_mcore_flag[of sh_key v prepend_offsets pfx allow allow']
    by (simp split: sum.splits)
next
  case (3 dp_rank sh_key v prepend_offsets pfx allow)
  then show ?case by (simp split: sum.splits)
next
  case (4 dp_rank sh_key x prepend_offsets pfx allow)
  then show ?case by simp
next
  case (5 dp_rank sh_key prepend_offsets pfx allow)
  then show ?case by simp
next
  case (6 dp_rank sh_key kk vv rest prepend_offsets pfx allow)
  show ?case
  proof (cases "convert_save dp_rank sh_key vv prepend_offsets (pfx @ kk @ ''.'') allow'")
    case (Inl e)
    with "6.IH"(1) show ?thesis by simp
  next
    case (Inr nv)
    with "6.IH"(1) have a: "convert_save dp_rank sh_key vv prepend_offsets (pfx @ kk @ ''.'') allow
        = Inr (with_flag allow nv)" by simp
    from "6.IH"(2)[OF a] Inr a show ?thesis by (simp split: sum.splits)
  qed
qed

text \<open>
  Claim C7, as the code has it. The flag is computed once per top-level entry, from the
  top-level key as it stands in the dict, and goes down unchanged: every descriptor
  below the entry, at any depth, carries \<open>allow_shape_mismatch\<close> true iff that top-level
  key ends with the vocabulary-table suffix. The flag is only recorded: converting a
  value with the flag set and with the flag cleared fails with the same exception or
  returns the same result up to the recorded field, so no shape is checked for any
  key; and \<open>splitForSave\<close> never raises a shape error.
\<close>

theorem splitForSave_allow_shape_mismatch:
  "convert_save dp_rank sh_key v prepend_offsets pfx allow =
     (case convert_save dp_rank sh_key v prepend_offsets pfx (\<not> allow) of
        Inl e \<Rightarrow> Inl e
      | Inr nv \<Rightarrow> Inr (with_flag allow nv)) \<and>
   pyt_to_mcore_state_dict dp_rank state_dict pfx \<noteq> Inl ShapeMismatchError \<and>
   (pyt_to_mcore_state_dict dp_rank state_dict pfx = Inr out \<longrightarrow>
      length out = length state_dict \<and>
      (\<forall>i < length out. fst (out ! i) = fst (state_dict ! i) \<and>
         (\<forall>d \<in> set (tensors_of (snd (out ! i))).
            allow_shape_mismatch d = endswith (fst (state_dict ! i)) vocab_suffix)))"
proof (intro conjI impI)
  show "convert_save dp_rank sh_key v prepend_offsets pfx allow =
     (case convert_save dp_rank sh_key v prepend_offsets pfx (\<not> allow) of
        Inl e \<Rightarrow> Inl e
      | Inr nv \<Rightarrow> Inr (with_flag allow nv))"
    by (rule convert_save_flag(1))
next
  show "pyt_to_mcore_state_dict dp_rank state_dict pfx \<noteq> Inl ShapeMismatchError"
    using entries_loop_no_shape_error num_layers_loop_no_shape_error
    by (auto simp: pyt_to_mcore_state_dict_def resolve_num_layers_def split: sum.splits)
next
  assume ok: "pyt_to_mcore_state_dict dp_rank state_dict pfx = Inr out"
  from pyt_to_mcore_entries[OF ok] obtain num_layers where
    loop: "entries_loop dp_rank num_layers pfx state_dict = Inr out" by auto
  note E = entries_loop_result[OF loop]
  show "length out = length state_dict" using E by simp
  show "\<forall>i < length out. fst (out ! i) = fst (state_dict ! i) \<and>
         (\<forall>d \<in> set (tensors_of (snd (out ! i))).
            allow_shape_mismatch d = endswith (fst (state_dict ! i)) vocab_suffix)"
  proof (intro allI impI)
    fix i assume "i < length out"
    with E have k: "fst (out ! i) = fst (state_dict ! i)"
      and ce: "convert_entry dp_rank num_layers pfx (fst (state_dict ! i)) (snd (state_dict ! i))
        = Inr (snd (out ! i))" by auto
    from convert_entry_leaves[OF ce] k
    show "fst (out ! i) = fst (state_dict ! i) \<and>
         (\<forall>d \<in> set (tensors_of (snd (out ! i))).
            allow_shape_mismatch d = endswith (fst (state_dict ! i)) vocab_suffix)" by simp
  qed
qed

text \<open>
  The theorem at \<open>nested_state_dict\<close>: the descriptor two levels below the top-level
  key \<open>weight\<close> has the flag of that key, false; and at \<open>uneven_tensor\<close>, which converts
  to global shape 8 with the flag set exactly as it does with the flag cleared.
\<close>

theorem splitForSave_allow_shape_mismatch_witness:
  "pyt_to_mcore_state_dict 0 nested_state_dict [] = Inr nested_out \<and>
   map allow_shape_mismatch (tensors_of (snd (nested_out ! 1))) = [endswith ''weight'' vocab_suffix] \<and>
   \<not> endswith ''weight'' vocab_suffix \<and>
   convert_save 0 ''w'' (TorchSharded uneven_tensor) [] [] False =
     Inr (MTensors [\<lparr> key = ''w'', data = \<lparr> shape = [4], storage = 0 \<rparr>, global_shape = [8],
            global_offset = [4], axis_fragmentations = [2], replica_id = 0,
            prepend_axis_num = 0, allow_shape_mismatch = False \<rparr>]) \<and>
   convert_save 0 ''w'' (TorchSharded uneven_tensor) [] [] True =
     Inr (MTensors [\<lparr> key = ''w'', data = \<lparr> shape = [4], storage = 0 \<rparr>, global_shape = [8],
            global_offset = [4], axis_fragmentations = [2], replica_id = 0,
            prepend_axis_num = 0, allow_shape_mismatch = True \<rparr>])"
proof -
  have b: "1 < length nested_out" "fst (nested_state_dict ! 1) = ''weight''"
    by (simp_all add: nested_state_dict_def nested_out_def)
  note T = splitForSave_allow_shape_mismatch[of 0 "''w''" "TorchSharded uneven_tensor" "[]" "[]" True
      nested_state_dict nested_out]
  from T nested_state_dict_result
  have "\<forall>i < length nested_out. fst (nested_out ! i) = fst (nested_state_dict ! i) \<and>
         (\<forall>d \<in> set (tensors_of (snd (nested_out ! i))).
            allow_shape_mismatch d = endswith (fst (nested_state_dict ! i)) vocab_suffix)"
    by blast
  with b(1) have "\<forall>d \<in> set (tensors_of (snd (nested_out ! 1))).
            allow_shape_mismatch d = endswith (fst (nested_state_dict ! 1)) vocab_suffix"
    by blast
  with b(2) have 1: "map allow_shape_mismatch (tensors_of (snd (nested_out ! 1)))
      = [endswith ''weight'' vocab_suffix] \<and> \<not> endswith ''weight'' vocab_suffix"
    by (simp add: nested_out_def string_defs)
  have f: "convert_save 0 ''w'' (TorchSharded uneven_tensor) [] [] False =
     Inr (MTensors [\<lparr> key = ''w'', data = \<lparr> shape = [4], storage = 0 \<rparr>, global_shape = [8],
            global_offset = [4], axis_fragmentations = [2], replica_id = 0,
            prepend_axis_num = 0, allow_shape_mismatch = False \<rparr>])"
    by (simp add: toDialectA_defs uneven_tensor_def)
  from T f have t: "convert_save 0 ''w'' (TorchSharded uneven_tensor) [] [] True =
     Inr (MTensors [\<lparr> key = ''w'', data = \<lparr> shape = [4], storage = 0 \<rparr>, global_shape = [8],
            global_offset = [4], axis_fragmentations = [2], replica_id = 0,
            prepend_axis_num = 0, allow_shape_mismatch = True \<rparr>])"
    by simp
  from 1 f t nested_state_dict_result show ?thesis by simp
qed

text \<open>
  Against C7 as stated, at \<open>nested_state_dict\<close>. The nested leaf's full dotted key
  \<open>a.word_embeddings.weight\<close> ends with the vocabulary-table suffix, yet its descriptor
  has the flag false, because the top-level key is \<open>weight\<close>. And the vector under the
  layer key, which does not end with the suffix, gets global shape 8 against the
  declared size 10 with no error raised.
\<close>

theorem splitForSave_allow_shape_mismatch_counterexample:
  "pyt_to_mcore_state_dict 0 nested_state_dict [] =
     Inr [(''module.decoder.layers.0.w'',
       MTensors [\<lparr> key = ''module.decoder.layers.w'', data = \<lparr> shape = [4], storage = 0 \<rparr>,
                   global_shape = [1, 8], global_offset = [0, 4], axis_fragmentations = [1, 2],
                   replica_id = 0, prepend_axis_num = 1, allow_shape_mismatch = False \<rparr>]),
      (''weight'',
       MDict [(''a'',
         MDict [(''word_embeddings'',
           MTensors [\<lparr> key = ''a.word_embeddings.weight'', data = \<lparr> shape = [4, 6], storage = 1 \<rparr>,
                       global_shape = [8, 6], global_offset = [4, 0], axis_fragmentations = [2, 1],
                       replica_id = 0, prepend_axis_num = 0, allow_shape_mismatch = False \<rparr>])])])] \<and>
   endswith ''a.word_embeddings.weight'' vocab_suffix \<and>
   \<not> endswith ''module.decoder.layers.w'' vocab_suffix \<and>
   meta_size uneven_tensor = [10]"
  by (simp add: splitForSave_defs toDialectA_defs string_defs nested_state_dict_def
        layer_tensor_def uneven_tensor_def)

subsection \<open>The Layer-Index Resolver\<close>



















subsection \<open>toDialectB\<close>

lemma mcore_to_pyt_loop_result:
  "mcore_to_pyt_loop tens sh_tens = Inr ds \<Longrightarrow>
     length ds = length sh_tens \<and>
     (\<forall>i < min (length tens) (length sh_tens).
        ds ! i = strip_prepend_axes (tens ! i) (sh_tens ! i) \<and> metadata_consistent (ds ! i)) \<and>
     (\<forall>i. length tens \<le> i \<and> i < length sh_tens \<longrightarrow> ds ! i = sh_tens ! i)"
proof (induction tens sh_tens arbitrary: ds rule: mcore_to_pyt_loop.induct)
  case (1 ten tens sh_ten sh_tens)
  let ?d = "strip_prepend_axes ten sh_ten"
  from "1.prems" obtain ds' where
    v: "metadata_consistent ?d"
    and rest: "mcore_to_pyt_loop tens sh_tens = Inr ds'"
    and ds: "ds = ?d # ds'"
    by (auto simp: validate_metadata_integrity_def Let_def split: sum.splits if_splits)
  from v have v': "validate_metadata_integrity ?d = Inr ()"
    by (simp add: validate_metadata_integrity_def)
  note IH = "1.IH"[OF refl v' rest]
  have len: "length ds = length (sh_ten # sh_tens)" using IH ds by simp
  have a: "ds ! i = strip_prepend_axes ((ten # tens) ! i) ((sh_ten # sh_tens) ! i) \<and>
           metadata_consistent (ds ! i)"
    if "i < min (length (ten # tens)) (length (sh_ten # sh_tens))" for i
    using that IH ds v by (cases i) auto
  have b: "ds ! i = (sh_ten # sh_tens) ! i"
    if "length (ten # tens) \<le> i \<and> i < length (sh_ten # sh_tens)" for i
    using that IH ds by (cases i) auto
  from len a b show ?case by blast
next
  case (2 sh_tens)
  then show ?case by simp
next
  case (3 v va)
  then show ?case by simp
qed

lemma mcore_to_pyt_loop_inconsistent:
  "\<exists>i < min (length tens) (length sh_tens).
      \<not> metadata_consistent (strip_prepend_axes (tens ! i) (sh_tens ! i)) \<Longrightarrow>
   mcore_to_pyt_loop tens sh_tens = Inl ShapeMismatchError"
proof (induction tens sh_tens rule: mcore_to_pyt_loop.induct)
  case (1 ten tens sh_ten sh_tens)
  let ?d = "strip_prepend_axes ten sh_ten"
  show ?case
  proof (cases "metadata_consistent ?d")
    case False
    then show ?thesis by (simp add: validate_metadata_integrity_def Let_def)
  next
    case True
    then have v': "validate_metadata_integrity ?d = Inr ()"
      by (simp add: validate_metadata_integrity_def)
    from "1.prems" obtain i where i: "i < min (length (ten # tens)) (length (sh_ten # sh_tens))"
      "\<not> metadata_consistent (strip_prepend_axes ((ten # tens) ! i) ((sh_ten # sh_tens) ! i))"
      by auto
    with True obtain m where m: "i = Suc m" by (cases i) auto
    with i have "\<exists>i < min (length tens) (length sh_tens).
      \<not> metadata_consistent (strip_prepend_axes (tens ! i) (sh_tens ! i))" by auto
    from "1.IH"[OF refl v' this] v' show ?thesis by (simp add: Let_def)
  qed
next
  case (2 sh_tens)
  then show ?case by simp
next
  case (3 v va)
  then show ?case by simp
qed

lemma mcore_to_pyt_loop_consistent:
  "\<forall>i < min (length tens) (length sh_tens).
      metadata_consistent (strip_prepend_axes (tens ! i) (sh_tens ! i)) \<Longrightarrow>
   \<exists>ds. mcore_to_pyt_loop tens sh_tens = Inr ds"
proof (induction tens sh_tens rule: mcore_to_pyt_loop.induct)
  case (1 ten tens sh_ten sh_tens)
  let ?d = "strip_prepend_axes ten sh_ten"
  from "1.prems" have "metadata_consistent ?d" by fastforce
  then have v': "validate_metadata_integrity ?d = Inr ()"
    by (simp add: validate_metadata_integrity_def)
  from "1.prems" have "\<forall>i < min (length tens) (length sh_tens).
      metadata_consistent (strip_prepend_axes (tens ! i) (sh_tens ! i))" by fastforce
  from "1.IH"[OF refl v' this] v' show ?case by (auto simp: Let_def)
next
  case (2 sh_tens)
  then show ?case by simp
next
  case (3 v va)
  then show ?case by simp
qed

lemma mcore_to_pyt_sharded_tensor_result:
  "mcore_to_pyt_sharded_tensor pl tens sh_tens = Inr (ds, t) \<Longrightarrow>
     mcore_to_pyt_loop tens sh_tens = Inr ds \<and> ds \<noteq> [] \<and>
     t = \<lparr> meta_size = global_shape (ds ! 0), local_shards = map (shard_of_descriptor pl) ds \<rparr>"
  by (auto simp: mcore_to_pyt_sharded_tensor_def sharded_tensor_to_torch_sharded_tensor_def
           split: sum.splits list.splits)

lemmas toDialectB_defs =
  mcore_to_pyt_sharded_tensor_def sharded_tensor_to_torch_sharded_tensor_def
  shard_of_descriptor_def strip_prepend_axes_def validate_metadata_integrity_def
  metadata_consistent_def axes_consistent_def

lemmas descriptor_defs =
  layer_descriptor_def broken_descriptor_def loaded_buffer_def spare_buffer_def


text \<open>
  Claim C4. For every descriptor that \<open>zip\<close> pairs with a buffer, \<open>toDialectB\<close> leaves
  the global shape, the global offset and the fragmentations without their first
  \<open>prepend_axis_num\<close> entries, \<open>prepend_axis_num\<close> at 0 and \<open>data\<close> bound to the buffer,
  the other fields as they were, and the descriptor has passed the validation; if the
  descriptor of some pair is inconsistent after that, the call fails with
  \<open>ShapeMismatchError\<close>.
\<close>

theorem toDialectB_descriptor_effect:
  "(mcore_to_pyt_sharded_tensor pl tens sh_tens = Inr (ds, t) \<longrightarrow>
      (\<forall>i < min (length tens) (length sh_tens).
         global_shape (ds ! i) = drop (prepend_axis_num (sh_tens ! i)) (global_shape (sh_tens ! i)) \<and>
         global_offset (ds ! i) = drop (prepend_axis_num (sh_tens ! i)) (global_offset (sh_tens ! i)) \<and>
         axis_fragmentations (ds ! i) =
           drop (prepend_axis_num (sh_tens ! i)) (axis_fragmentations (sh_tens ! i)) \<and>
         prepend_axis_num (ds ! i) = 0 \<and>
         data (ds ! i) = tens ! i \<and>
         key (ds ! i) = key (sh_tens ! i) \<and>
         replica_id (ds ! i) = replica_id (sh_tens ! i) \<and>
         allow_shape_mismatch (ds ! i) = allow_shape_mismatch (sh_tens ! i) \<and>
         validate_metadata_integrity (ds ! i) = Inr ())) \<and>
   ((\<exists>i < min (length tens) (length sh_tens).
        validate_metadata_integrity (strip_prepend_axes (tens ! i) (sh_tens ! i)) \<noteq> Inr ()) \<longrightarrow>
      mcore_to_pyt_sharded_tensor pl tens sh_tens = Inl ShapeMismatchError)"
proof (intro conjI impI allI)
  fix i
  assume ok: "mcore_to_pyt_sharded_tensor pl tens sh_tens = Inr (ds, t)"
    and i: "i < min (length tens) (length sh_tens)"
  from mcore_to_pyt_sharded_tensor_result[OF ok]
  have loop: "mcore_to_pyt_loop tens sh_tens = Inr ds" by simp
  from mcore_to_pyt_loop_result[OF loop] i
  have d: "ds ! i = strip_prepend_axes (tens ! i) (sh_tens ! i)"
    and v: "metadata_consistent (ds ! i)" by auto
  show "global_shape (ds ! i) = drop (prepend_axis_num (sh_tens ! i)) (global_shape (sh_tens ! i))"
    "global_offset (ds ! i) = drop (prepend_axis_num (sh_tens ! i)) (global_offset (sh_tens ! i))"
    "axis_fragmentations (ds ! i) =
           drop (prepend_axis_num (sh_tens ! i)) (axis_fragmentations (sh_tens ! i))"
    "prepend_axis_num (ds ! i) = 0"
    "data (ds ! i) = tens ! i"
    "key (ds ! i) = key (sh_tens ! i)"
    "replica_id (ds ! i) = replica_id (sh_tens ! i)"
    "allow_shape_mismatch (ds ! i) = allow_shape_mismatch (sh_tens ! i)"
    using d by (simp_all add: strip_prepend_axes_def)
  show "validate_metadata_integrity (ds ! i) = Inr ()"
    using v by (simp add: validate_metadata_integrity_def)
next
  assume "\<exists>i < min (length tens) (length sh_tens).
        validate_metadata_integrity (strip_prepend_axes (tens ! i) (sh_tens ! i)) \<noteq> Inr ()"
  then have "\<exists>i < min (length tens) (length sh_tens).
      \<not> metadata_consistent (strip_prepend_axes (tens ! i) (sh_tens ! i))"
    by (auto simp: validate_metadata_integrity_def split: if_splits)
  from mcore_to_pyt_loop_inconsistent[OF this]
  show "mcore_to_pyt_sharded_tensor pl tens sh_tens = Inl ShapeMismatchError"
    by (simp add: mcore_to_pyt_sharded_tensor_def)
qed

lemma layer_descriptor_merge:
  "mcore_to_pyt_sharded_tensor ''rank:1/cuda:1'' [loaded_buffer] [layer_descriptor] =
     Inr ([\<lparr> key = ''module.decoder.layers.w'', data = loaded_buffer,
              global_shape = [8, 6], global_offset = [4, 0], axis_fragmentations = [2, 1],
              replica_id = 0, prepend_axis_num = 0, allow_shape_mismatch = False \<rparr>],
          \<lparr> meta_size = [8, 6],
            local_shards =
              [\<lparr> tensor = loaded_buffer,
                 metadata = \<lparr> shard_offsets = [4, 0], shard_sizes = [4, 6],
                              placement = ''rank:1/cuda:1'' \<rparr> \<rparr>] \<rparr>)"
  by (simp add: toDialectB_defs descriptor_defs)

text \<open>
  The theorem at \<open>layer_descriptor\<close>, whose one prepended axis is taken off, and at
  \<open>broken_descriptor\<close>, which the validation refuses.
\<close>

theorem toDialectB_descriptor_effect_witness:
  "mcore_to_pyt_sharded_tensor ''rank:1/cuda:1'' [loaded_buffer] [layer_descriptor] =
     Inr ([\<lparr> key = ''module.decoder.layers.w'', data = loaded_buffer,
              global_shape = [8, 6], global_offset = [4, 0], axis_fragmentations = [2, 1],
              replica_id = 0, prepend_axis_num = 0, allow_shape_mismatch = False \<rparr>],
          \<lparr> meta_size = [8, 6],
            local_shards =
              [\<lparr> tensor = loaded_buffer,
                 metadata = \<lparr> shard_offsets = [4, 0], shard_sizes = [4, 6],
                              placement = ''rank:1/cuda:1'' \<rparr> \<rparr>] \<rparr>) \<and>
   drop (prepend_axis_num layer_descriptor) (global_shape layer_descriptor) = [8, 6] \<and>
   validate_metadata_integrity (strip_prepend_axes loaded_buffer broken_descriptor) \<noteq> Inr () \<and>
   mcore_to_pyt_sharded_tensor ''rank:1/cuda:1'' [loaded_buffer] [broken_descriptor] =
     Inl ShapeMismatchError"
proof -
  have bad: "\<exists>i < min (length [loaded_buffer]) (length [broken_descriptor]).
      validate_metadata_integrity (strip_prepend_axes ([loaded_buffer] ! i) ([broken_descriptor] ! i))
        \<noteq> Inr ()"
    by (simp add: toDialectB_defs descriptor_defs)
  from toDialectB_descriptor_effect[of "''rank:1/cuda:1''" "[loaded_buffer]" "[broken_descriptor]"] bad
  have 1: "mcore_to_pyt_sharded_tensor ''rank:1/cuda:1'' [loaded_buffer] [broken_descriptor] =
     Inl ShapeMismatchError" by blast
  have 2: "drop (prepend_axis_num layer_descriptor) (global_shape layer_descriptor) = [8, 6]"
    "validate_metadata_integrity (strip_prepend_axes loaded_buffer broken_descriptor) \<noteq> Inr ()"
    by (simp_all add: toDialectB_defs descriptor_defs)
  from toDialectB_descriptor_effect[of "''rank:1/cuda:1''" "[loaded_buffer]" "[layer_descriptor]"
      "[\<lparr> key = ''module.decoder.layers.w'', data = loaded_buffer,
              global_shape = [8, 6], global_offset = [4, 0], axis_fragmentations = [2, 1],
              replica_id = 0, prepend_axis_num = 0, allow_shape_mismatch = False \<rparr>]"
      "\<lparr> meta_size = [8, 6],
            local_shards =
              [\<lparr> tensor = loaded_buffer,
                 metadata = \<lparr> shard_offsets = [4, 0], shard_sizes = [4, 6],
                              placement = ''rank:1/cuda:1'' \<rparr> \<rparr>] \<rparr>"]
    layer_descriptor_merge
  have 3: "global_shape ([\<lparr> key = ''module.decoder.layers.w'', data = loaded_buffer,
              global_shape = [8, 6], global_offset = [4, 0], axis_fragmentations = [2, 1],
              replica_id = 0, prepend_axis_num = 0, allow_shape_mismatch = False \<rparr>] ! 0) =
       drop (prepend_axis_num ([layer_descriptor] ! 0)) (global_shape ([layer_descriptor] ! 0))"
    by simp
  from 1 2 3 layer_descriptor_merge show ?thesis by simp
qed

lemma mcore_to_pyt_loop_take:
  "mcore_to_pyt_loop (take (length sh_tens) tens) sh_tens = mcore_to_pyt_loop tens sh_tens"
proof (induction tens sh_tens rule: mcore_to_pyt_loop.induct)
  case (1 ten tens sh_ten sh_tens)
  show ?case
  proof (cases "validate_metadata_integrity (strip_prepend_axes ten sh_ten)")
    case (Inl e)
    then show ?thesis by (simp add: Let_def)
  next
    case (Inr u)
    from "1.IH"[OF refl Inr] Inr show ?thesis by (simp add: Let_def)
  qed
next
  case (2 sh_tens)
  then show ?case by simp
next
  case (3 v va)
  then show ?case by simp
qed

text \<open>
  Claim C8, as the code has it. No length is compared. \<open>zip\<close> pairs buffer \<open>i\<close> with
  descriptor \<open>i\<close> up to the shorter of the two sequences. Buffers beyond the descriptors
  are ignored: the call has the outcome, result or failure, of the call without them,
  so their presence raises nothing. Whenever the call returns, every pair within the
  shorter length is buffer \<open>i\<close> with descriptor \<open>i\<close>, descriptors beyond the buffers are as
  they were, and with equal lengths every buffer is bound to its descriptor.
\<close>

theorem toDialectB_pairs_by_zip:
  "mcore_to_pyt_sharded_tensor pl tens sh_tens =
     mcore_to_pyt_sharded_tensor pl (take (length sh_tens) tens) sh_tens \<and>
   (mcore_to_pyt_sharded_tensor pl tens sh_tens = Inr (ds, t) \<longrightarrow>
      length ds = length sh_tens \<and>
      (\<forall>i < min (length tens) (length sh_tens).
         ds ! i = strip_prepend_axes (tens ! i) (sh_tens ! i) \<and> data (ds ! i) = tens ! i) \<and>
      (\<forall>i. length tens \<le> i \<and> i < length sh_tens \<longrightarrow> ds ! i = sh_tens ! i) \<and>
      (length tens = length sh_tens \<longrightarrow> map data ds = tens))"
proof (intro conjI impI)
  show "mcore_to_pyt_sharded_tensor pl tens sh_tens =
     mcore_to_pyt_sharded_tensor pl (take (length sh_tens) tens) sh_tens"
    by (simp add: mcore_to_pyt_sharded_tensor_def mcore_to_pyt_loop_take)
next
  assume ok: "mcore_to_pyt_sharded_tensor pl tens sh_tens = Inr (ds, t)"
  from mcore_to_pyt_sharded_tensor_result[OF ok]
  have loop: "mcore_to_pyt_loop tens sh_tens = Inr ds" by simp
  note R = mcore_to_pyt_loop_result[OF loop]
  show len: "length ds = length sh_tens" using R by simp
  show pairs: "\<forall>i < min (length tens) (length sh_tens).
         ds ! i = strip_prepend_axes (tens ! i) (sh_tens ! i) \<and> data (ds ! i) = tens ! i"
    using R by (simp add: strip_prepend_axes_def)
  show "\<forall>i. length tens \<le> i \<and> i < length sh_tens \<longrightarrow> ds ! i = sh_tens ! i"
    using R by simp
  show "map data ds = tens" if "length tens = length sh_tens"
    using that len pairs by (intro nth_equalityI) auto
qed

text \<open>
  The theorem at two buffers and the single \<open>layer_descriptor\<close>: the call is the call
  with the first buffer alone, and the descriptor it returns is bound to that buffer.
\<close>

theorem toDialectB_pairs_by_zip_witness:
  "length [loaded_buffer, spare_buffer] \<noteq> length [layer_descriptor] \<and>
   mcore_to_pyt_sharded_tensor ''rank:1/cuda:1'' [loaded_buffer, spare_buffer] [layer_descriptor] =
     mcore_to_pyt_sharded_tensor ''rank:1/cuda:1'' [loaded_buffer] [layer_descriptor] \<and>
   mcore_to_pyt_sharded_tensor ''rank:1/cuda:1'' [loaded_buffer, spare_buffer] [layer_descriptor] =
     Inr ([strip_prepend_axes loaded_buffer layer_descriptor],
          \<lparr> meta_size = [8, 6],
            local_shards =
              [\<lparr> tensor = loaded_buffer,
                 metadata = \<lparr> shard_offsets = [4, 0], shard_sizes = [4, 6],
                              placement = ''rank:1/cuda:1'' \<rparr> \<rparr>] \<rparr>) \<and>
   data (strip_prepend_axes loaded_buffer layer_descriptor) = loaded_buffer"
proof -
  let ?t = "\<lparr> meta_size = [8, 6],
            local_shards =
              [\<lparr> tensor = loaded_buffer,
                 metadata = \<lparr> shard_offsets = [4, 0], shard_sizes = [4, 6],
                              placement = ''rank:1/cuda:1'' \<rparr> \<rparr>] \<rparr>"
  let ?ds = "[strip_prepend_axes loaded_buffer layer_descriptor]"
  note T = toDialectB_pairs_by_zip[of "''rank:1/cuda:1''" "[loaded_buffer, spare_buffer]"
      "[layer_descriptor]" ?ds ?t]
  from T have 1: "mcore_to_pyt_sharded_tensor ''rank:1/cuda:1'' [loaded_buffer, spare_buffer] [layer_descriptor] =
     mcore_to_pyt_sharded_tensor ''rank:1/cuda:1'' [loaded_buffer] [layer_descriptor]"
    by simp
  have 2: "mcore_to_pyt_sharded_tensor ''rank:1/cuda:1'' [loaded_buffer] [layer_descriptor] = Inr (?ds, ?t)"
    by (simp add: toDialectB_defs descriptor_defs)
  with 1 have 3: "mcore_to_pyt_sharded_tensor ''rank:1/cuda:1'' [loaded_buffer, spare_buffer]
      [layer_descriptor] = Inr (?ds, ?t)" by simp
  with T have "\<forall>i < min (length [loaded_buffer, spare_buffer]) (length [layer_descriptor]).
         ?ds ! i = strip_prepend_axes ([loaded_buffer, spare_buffer] ! i) ([layer_descriptor] ! i) \<and>
         data (?ds ! i) = [loaded_buffer, spare_buffer] ! i"
    by blast
  then have 4: "data (strip_prepend_axes loaded_buffer layer_descriptor) = loaded_buffer"
    by simp
  from 1 3 4 show ?thesis by simp
qed

text \<open>
  Against C8 as stated: two buffers and one descriptor, and the call returns the
  aggregate instead of failing with an arity error.
\<close>

theorem toDialectB_arity_counterexample:
  "length [loaded_buffer, spare_buffer] \<noteq> length [layer_descriptor] \<and>
   mcore_to_pyt_sharded_tensor ''rank:1/cuda:1'' [loaded_buffer, spare_buffer] [layer_descriptor] =
     Inr ([\<lparr> key = ''module.decoder.layers.w'', data = loaded_buffer,
              global_shape = [8, 6], global_offset = [4, 0], axis_fragmentations = [2, 1],
              replica_id = 0, prepend_axis_num = 0, allow_shape_mismatch = False \<rparr>],
          \<lparr> meta_size = [8, 6],
            local_shards =
              [\<lparr> tensor = loaded_buffer,
                 metadata = \<lparr> shard_offsets = [4, 0], shard_sizes = [4, 6],
                              placement = ''rank:1/cuda:1'' \<rparr> \<rparr>] \<rparr>)"
  by (simp add: toDialectB_defs descriptor_defs)

subsection \<open>mergeLoaded\<close>

lemmas mergeLoaded_defs =
  mcore_to_pyt_sharded_state_dict_def subscript_def store_def

lemma merge_loop_keys:
  "merge_loop pl c t ks = Inr r \<Longrightarrow> \<forall>k \<in> set ks. map_of t k \<noteq> None"
proof (induction ks arbitrary: c)
  case Nil
  then show ?case by simp
next
  case (Cons k ks)
  from Cons.prems obtain c' where
    a: "convert_load pl c t k = Inr c'" and b: "merge_loop pl c' t ks = Inr r"
    by (auto split: sum.splits)
  from a have "map_of t k \<noteq> None" by (auto split: option.splits)
  with Cons.IH[OF b] show ?case by simp
qed

text \<open>A call of \<open>_convert\<close> for key \<open>k\<close> changes nothing that another key reads.\<close>

lemma subscript_store_same:
  "subscript c k = Inr ck \<Longrightarrow> subscript (store c k v) k = Inr v"
  by (cases c) (auto simp: subscript_def store_def update_conv' split: option.splits)

lemma subscript_store_other:
  "k' \<noteq> k \<Longrightarrow> subscript (store c k v) k' = subscript c k'"
  by (cases c) (auto simp: subscript_def store_def update_conv' split: option.splits)

lemma convert_load_keys_frame:
  "convert_load_keys pl c k sub ks = Inr c' \<Longrightarrow> k' \<noteq> k \<Longrightarrow> subscript c' k' = subscript c k'"
proof (induction ks arbitrary: c)
  case Nil
  then show ?case by simp
next
  case (Cons kk ks)
  from Cons.prems(1) obtain ck ck' where
    "subscript c k = Inr ck" "convert_load pl ck sub kk = Inr ck'"
    and rest: "convert_load_keys pl (store c k ck') k sub ks = Inr c'"
    by (auto split: sum.splits)
  from Cons.IH[OF rest Cons.prems(2)] Cons.prems(2) show ?case
    by (simp add: subscript_store_other)
qed

lemma convert_load_frame:
  "convert_load pl c t k = Inr c' \<Longrightarrow> k' \<noteq> k \<Longrightarrow> subscript c' k' = subscript c k'"
  by (auto split: option.splits template_value.splits sum.splits ckpt_value.splits prod.splits
           dest: convert_load_keys_frame simp: subscript_store_other)

lemma lacks_key_frame:
  assumes "lacks_key c t k" and "subscript c' k = subscript c k"
  shows "lacks_key c' t k"
  using assms
proof (cases rule: lacks_key.cases)
  case (leaf sh_tens)
  with assms(2) show ?thesis by (auto intro: lacks_key.leaf)
next
  case (sub_dict sub)
  with assms(2) show ?thesis by (auto intro: lacks_key.sub_dict)
next
  case (below sub ck kk)
  with assms(2) show ?thesis by (auto intro: lacks_key.below)
qed

text \<open>The walk goes down: a key lacking at any depth stops the call.\<close>

lemma convert_load_lacks_key:
  "lacks_key c t k \<Longrightarrow> \<exists>e. convert_load pl c t k = Inl e"
  "subscript c k = Inr ck \<Longrightarrow> \<exists>kk \<in> set ks. lacks_key ck sub kk \<Longrightarrow>
     \<exists>e. convert_load_keys pl c k sub ks = Inl e"
proof (induction pl c t k and pl c k sub ks arbitrary: and ck
       rule: convert_load_convert_load_keys.induct)
  case (1 pl checkpoint sharded_state_dict k)
  from "1.prems" show ?case
  proof (cases rule: lacks_key.cases)
    case (leaf sh_tens)
    then show ?thesis by simp
  next
    case (sub_dict sub)
    then obtain e es where "map fst sub = e # es" by (cases sub) auto
    with sub_dict show ?thesis by simp
  next
    case (below sub ck kk)
    from "1.IH"[OF below(1) refl below(2)] below(3,4)
    have "\<exists>e. convert_load_keys pl checkpoint k sub (map fst sub) = Inl e" by auto
    with below(1) show ?thesis by simp
  qed
next
  case (2 pl checkpoint k sub)
  then show ?case by simp
next
  case (3 pl checkpoint k sub kk kks)
  note sc = "3.prems"(1)
  show ?case
  proof (cases "convert_load pl ck sub kk")
    case (Inl e)
    with sc show ?thesis by simp
  next
    case (Inr ck')
    have nl: "\<not> lacks_key ck sub kk"
    proof
      assume "lacks_key ck sub kk"
      from "3.IH"(1)[OF sc this] Inr show False by simp
    qed
    with "3.prems"(2) obtain kk' where kk': "kk' \<in> set kks" "lacks_key ck sub kk'" "kk' \<noteq> kk"
      by auto
    from convert_load_frame[OF Inr kk'(3)] have "subscript ck' kk' = subscript ck kk'" .
    with kk'(2) have "lacks_key ck' sub kk'" by (rule lacks_key_frame)
    with kk'(1) have ex: "\<exists>kk \<in> set kks. lacks_key ck' sub kk" by blast
    from subscript_store_same[OF sc] have "subscript (store checkpoint k ck') k = Inr ck'" .
    from "3.IH"(2)[OF sc Inr this ex] sc Inr show ?thesis by simp
  qed
qed

lemma merge_loop_lacks_key:
  "k \<in> set ks \<Longrightarrow> lacks_key c t k \<Longrightarrow> \<exists>e. merge_loop pl c t ks = Inl e"
proof (induction ks arbitrary: c)
  case Nil
  then show ?case by simp
next
  case (Cons k0 ks)
  show ?case
  proof (cases "convert_load pl c t k0")
    case (Inl e)
    then show ?thesis by simp
  next
    case (Inr c')
    with convert_load_lacks_key(1)[of c t k pl] Cons.prems(2) have ne: "k \<noteq> k0" by auto
    with Cons.prems(1) have mem: "k \<in> set ks" by simp
    from convert_load_frame[OF Inr ne] have "subscript c' k = subscript c k" .
    with Cons.prems(2) have "lacks_key c' t k" by (rule lacks_key_frame)
    from Cons.IH[OF mem this] Inr show ?thesis by simp
  qed
qed

text \<open>Only the template's entry under the key at hand is read.\<close>

lemma convert_load_entry:
  "map_of t' k = map_of t k \<Longrightarrow> convert_load pl c t' k = convert_load pl c t k"
  by simp

lemma merge_loop_entries:
  "\<forall>k \<in> set ks. map_of t' k = map_of t k \<Longrightarrow> merge_loop pl c t' ks = merge_loop pl c t ks"
proof (induction ks arbitrary: c)
  case Nil
  then show ?case by simp
next
  case (Cons k ks)
  then have "convert_load pl c t' k = convert_load pl c t k" by (intro convert_load_entry) simp
  with Cons show ?case by (simp del: convert_load.simps split: sum.splits)
qed

text \<open>
  Claim C2, as the code has it. On the top level the walk is over the keys of the
  checkpoint, each of which must be a key of the template: \<open>mergeLoaded\<close> returns only
  if every top-level key of the checkpoint is in the template, and the template's
  entries under other keys are never looked at, so they do not change the outcome.
  From a top-level key the walk goes down the template's sub-dicts, at every depth:
  if it meets a descriptor-list leaf (or a sub-dict with entries) whose key the
  checkpoint lacks at that place, \<open>mergeLoaded\<close> does not return. In \<open>_convert\<close> itself, a
  key absent from the template fails the assertion, which names it; a descriptor-list
  leaf whose key the checkpoint's dict lacks fails with a KeyError naming that key; an
  object leaf returns at once, without looking the key up in the checkpoint.
\<close>

theorem mergeLoaded_key_checks:
  "(mcore_to_pyt_sharded_state_dict pl checkpoint template = Inr r \<longrightarrow>
      (\<forall>k \<in> fst ` set checkpoint. k \<in> fst ` set template)) \<and>
   ((\<forall>k \<in> fst ` set checkpoint. map_of template' k = map_of template k) \<longrightarrow>
      mcore_to_pyt_sharded_state_dict pl checkpoint template' =
      mcore_to_pyt_sharded_state_dict pl checkpoint template) \<and>
   (k \<in> fst ` set checkpoint \<and> lacks_key (CDict checkpoint) template k \<longrightarrow>
      (\<exists>e. mcore_to_pyt_sharded_state_dict pl checkpoint template = Inl e)) \<and>
   (lacks_key c template k \<longrightarrow> (\<exists>e. convert_load pl c template k = Inl e)) \<and>
   (map_of template k = None \<longrightarrow>
      convert_load pl c template k = Inl (AssertionError (k @ '' not in sharded_state_dict''))) \<and>
   (map_of template k = Some (TTensors sh_tens) \<and> map_of sub_checkpoint k = None \<longrightarrow>
      convert_load pl (CDict sub_checkpoint) template k = Inl (KeyError k)) \<and>
   (map_of template k = Some (TObject ob) \<longrightarrow> convert_load pl c template k = Inr c)"
proof (intro conjI impI)
  assume "mcore_to_pyt_sharded_state_dict pl checkpoint template = Inr r"
  then have "\<forall>k \<in> set (map fst checkpoint). map_of template k \<noteq> None"
    unfolding mcore_to_pyt_sharded_state_dict_def by (rule merge_loop_keys)
  then show "\<forall>k \<in> fst ` set checkpoint. k \<in> fst ` set template"
    by (auto simp: map_of_eq_None_iff)
next
  assume "\<forall>k \<in> fst ` set checkpoint. map_of template' k = map_of template k"
  then have "\<forall>k \<in> set (map fst checkpoint). map_of template' k = map_of template k" by simp
  then show "mcore_to_pyt_sharded_state_dict pl checkpoint template' =
      mcore_to_pyt_sharded_state_dict pl checkpoint template"
    unfolding mcore_to_pyt_sharded_state_dict_def by (rule merge_loop_entries)
next
  assume "k \<in> fst ` set checkpoint \<and> lacks_key (CDict checkpoint) template k"
  then have "k \<in> set (map fst checkpoint)" "lacks_key (CDict checkpoint) template k" by simp_all
  then show "\<exists>e. mcore_to_pyt_sharded_state_dict pl checkpoint template = Inl e"
    unfolding mcore_to_pyt_sharded_state_dict_def by (rule merge_loop_lacks_key)
next
  assume "lacks_key c template k"
  then show "\<exists>e. convert_load pl c template k = Inl e" by (rule convert_load_lacks_key(1))
next
  assume "map_of template k = None"
  then show "convert_load pl c template k = Inl (AssertionError (k @ '' not in sharded_state_dict''))"
    by simp
next
  assume "map_of template k = Some (TTensors sh_tens) \<and> map_of sub_checkpoint k = None"
  then show "convert_load pl (CDict sub_checkpoint) template k = Inl (KeyError k)"
    by (simp add: subscript_def)
next
  assume "map_of template k = Some (TObject ob)"
  then show "convert_load pl c template k = Inr c" by simp
qed

text \<open>
  The theorem at a checkpoint whose sub-dict \<open>model\<close> holds \<open>a\<close> but neither \<open>b\<close> nor
  \<open>extra\<close>: the walk from \<open>model\<close> meets the lacking leaf \<open>b\<close> one level down and
  \<open>mergeLoaded\<close> fails, with the KeyError that names \<open>b\<close>; the object leaf \<open>extra\<close>
  passes; a key unknown to the template fails the assertion; with \<open>a\<close> alone in the
  template the merge returns, also when the template has a further top-level entry.
\<close>

theorem mergeLoaded_key_checks_witness:
  "lacks_key (CDict nested_checkpoint) nested_template ''model'' \<and>
   mcore_to_pyt_sharded_state_dict ''r'' nested_checkpoint nested_template = Inl (KeyError ''b'') \<and>
   convert_load ''r'' (CDict [(''a'', CTensors [loaded_buffer])]) model_template ''b''
     = Inl (KeyError ''b'') \<and>
   convert_load ''r'' (CDict [(''a'', CTensors [loaded_buffer])]) model_template ''extra''
     = Inr (CDict [(''a'', CTensors [loaded_buffer])]) \<and>
   convert_load ''r'' (CDict nested_checkpoint) nested_template ''x''
     = Inl (AssertionError ''x not in sharded_state_dict'') \<and>
   mcore_to_pyt_sharded_state_dict ''r'' nested_checkpoint
       [(''model'', TDict [(''a'', TTensors [layer_descriptor])])]
     = Inr (CDict [(''model'', CDict [(''a'', CSharded
         \<lparr> meta_size = [8, 6],
           local_shards =
             [\<lparr> tensor = loaded_buffer,
                metadata = \<lparr> shard_offsets = [4, 0], shard_sizes = [4, 6], placement = ''r'' \<rparr> \<rparr>] \<rparr>)])]) \<and>
   mcore_to_pyt_sharded_state_dict ''r'' nested_checkpoint
       [(''model'', TDict [(''a'', TTensors [layer_descriptor])]), (''other'', TTensors [layer_descriptor])]
     = mcore_to_pyt_sharded_state_dict ''r'' nested_checkpoint
       [(''model'', TDict [(''a'', TTensors [layer_descriptor])])] \<and>
   ''model'' \<in> fst ` set [(''model'', TDict [(''a'', TTensors [layer_descriptor])])]"
proof -
  let ?sub = model_template
  let ?c = "[(''a'', CTensors [loaded_buffer])]"
  let ?t1 = "[(''model'', TDict [(''a'', TTensors [layer_descriptor])])]"
  let ?t2 = "[(''model'', TDict [(''a'', TTensors [layer_descriptor])]),
              (''other'', TTensors [layer_descriptor])]"
  have sub: "?sub = [(''a'', TTensors [layer_descriptor]), (''b'', TTensors [layer_descriptor]),
                         (''extra'', TObject example_object)]"
    by (simp add: model_template_def)
  have h1: "map_of ?sub ''b'' = Some (TTensors [layer_descriptor]) \<and> map_of ?c ''b'' = None"
    by (simp add: sub)
  have h2: "map_of ?sub ''extra'' = Some (TObject example_object)"
    by (simp add: sub)
  have h3: "map_of nested_template ''x'' = None"
    by (simp add: nested_template_def)
  have lb: "lacks_key (CDict ?c) ?sub ''b''"
    by (rule lacks_key.leaf[of _ _ "[layer_descriptor]"]) (simp_all add: sub subscript_def)
  have l: "lacks_key (CDict nested_checkpoint) nested_template ''model''"
    by (rule lacks_key.below[of _ _ ?sub _ "CDict ?c" "''b''"])
       (simp_all add: nested_template_def nested_checkpoint_def subscript_def lb, simp add: sub)
  have km: "''model'' \<in> fst ` set nested_checkpoint" by (simp add: nested_checkpoint_def)
  have r: "mcore_to_pyt_sharded_state_dict ''r'' nested_checkpoint ?t1
     = Inr (CDict [(''model'', CDict [(''a'', CSharded
         \<lparr> meta_size = [8, 6],
           local_shards =
             [\<lparr> tensor = loaded_buffer,
                metadata = \<lparr> shard_offsets = [4, 0], shard_sizes = [4, 6], placement = ''r'' \<rparr> \<rparr>] \<rparr>)])])"
    by (simp add: mergeLoaded_defs nested_checkpoint_def toDialectB_defs descriptor_defs)
  have e: "mcore_to_pyt_sharded_state_dict ''r'' nested_checkpoint nested_template = Inl (KeyError ''b'')"
    by (simp add: mergeLoaded_defs nested_checkpoint_def nested_template_def model_template_def
          toDialectB_defs descriptor_defs)
  have same: "\<forall>k \<in> fst ` set nested_checkpoint. map_of ?t2 k = map_of ?t1 k"
    by (simp add: nested_checkpoint_def)
  from mergeLoaded_key_checks[where checkpoint = nested_checkpoint and template = nested_template
      and k = "''model''" and pl = "''r''"] km l
  have 0: "\<exists>e. mcore_to_pyt_sharded_state_dict ''r'' nested_checkpoint nested_template = Inl e"
    by blast
  from mergeLoaded_key_checks[where template = ?sub and k = "''b''" and sub_checkpoint = ?c
      and sh_tens = "[layer_descriptor]" and pl = "''r''"] h1
  have 1: "convert_load ''r'' (CDict ?c) ?sub ''b'' = Inl (KeyError ''b'')" by blast
  from mergeLoaded_key_checks[where template = ?sub and k = "''extra''" and c = "CDict ?c"
      and ob = example_object and pl = "''r''"] h2
  have 2: "convert_load ''r'' (CDict ?c) ?sub ''extra'' = Inr (CDict ?c)" by blast
  from mergeLoaded_key_checks[where template = nested_template and k = "''x''"
      and c = "CDict nested_checkpoint" and pl = "''r''"] h3
  have 3: "convert_load ''r'' (CDict nested_checkpoint) nested_template ''x''
     = Inl (AssertionError ''x not in sharded_state_dict'')" by simp
  from mergeLoaded_key_checks[where checkpoint = nested_checkpoint and pl = "''r''"
      and template = ?t1 and template' = ?t2] same
  have 4: "mcore_to_pyt_sharded_state_dict ''r'' nested_checkpoint ?t2 =
      mcore_to_pyt_sharded_state_dict ''r'' nested_checkpoint ?t1" by blast
  have 5: "''model'' \<in> fst ` set ?t1" by simp
  from 0 1 2 3 4 5 l r e show ?thesis by blast
qed

text \<open>
  Against C2 as stated: the template has the key \<open>w\<close> and the checkpoint is empty, or
  the template's sub-dict has the object leaf \<open>extra\<close> and the checkpoint's sub-dict
  is empty, and in both cases \<open>mergeLoaded\<close> returns without any error.
\<close>

theorem mergeLoaded_missing_key_counterexample:
  "mcore_to_pyt_sharded_state_dict ''r'' [] [(''w'', TTensors [layer_descriptor])] = Inr (CDict []) \<and>
   mcore_to_pyt_sharded_state_dict ''r'' [(''model'', CDict [])]
       [(''model'', TDict [(''extra'', TObject example_object)])]
     = Inr (CDict [(''model'', CDict [])])"
  by (simp add: mergeLoaded_defs)

subsection \<open>Round trip\<close>

lemma stripped_descriptor:
  assumes A: "torch_to_mcore_sharded_tensor k T pre pfx allow = Inr ds"
    and i: "i < length ds"
    and cut: "evenly_cut T (local_shards T ! i)"
    and buf: "shape ten = shape (tensor (local_shards T ! i))"
  shows "global_shape (strip_prepend_axes ten (ds ! i)) = meta_size T"
    and "global_offset (strip_prepend_axes ten (ds ! i)) = shard_offsets (metadata (local_shards T ! i))"
    and "shape (data (strip_prepend_axes ten (ds ! i))) = shard_sizes (metadata (local_shards T ! i))"
    and "metadata_consistent (strip_prepend_axes ten (ds ! i))"
proof -
  let ?s = "local_shards T ! i" and ?p = "length pre" and ?n = "length (meta_size T)"
  let ?sz = "shard_sizes (metadata ?s)" and ?off = "shard_offsets (metadata ?s)"
  let ?d = "ds ! i"
  let ?d' = "strip_prepend_axes ten ?d"
  from cut have sh: "shape (tensor ?s) = ?sz" and lsz: "length ?sz = ?n" and loff: "length ?off = ?n"
    and all: "\<forall>j \<in> set [0..<?n]. ?sz ! j dvd meta_size T ! j \<and> ?sz ! j dvd ?off ! j \<and>
               ?sz ! j = shard_sizes (metadata (local_shards T ! 0)) ! j"
    unfolding evenly_cut_def list_all_iff by blast+
  have ax: "?sz ! j dvd meta_size T ! j" "?sz ! j dvd ?off ! j"
      "shard_sizes (metadata (local_shards T ! 0)) ! j = ?sz ! j" if "j < ?n" for j
  proof -
    from that have "j \<in> set [0..<?n]" by simp
    with all show "?sz ! j dvd meta_size T ! j" "?sz ! j dvd ?off ! j"
      "shard_sizes (metadata (local_shards T ! 0)) ! j = ?sz ! j" by metis+
  qed
  have p: "prepend_axis_num ?d = ?p" using torch_to_mcore_fields[OF A i] by simp
  note L = torch_to_mcore_lengths[OF A i]
  have lgs: "length (global_shape ?d) = ?p + ?n" and lgo: "length (global_offset ?d) = ?p + ?n"
    and laf: "length (axis_fragmentations ?d) = ?p + ?n"
    using L sh lsz by simp_all
  have gs: "global_shape ?d ! (?p + j) = meta_size T ! j" if "j < ?n" for j
  proof -
    from torch_to_mcore_axes(6)[OF A i that]
    have "global_shape ?d ! (?p + j) = (meta_size T ! j div ?sz ! j) * ?sz ! j"
      by (simp add: ax(3)[OF that] sh)
    with ax(1)[OF that] show ?thesis by simp
  qed
  have go: "global_offset ?d ! (?p + j) = ?off ! j" if "j < ?n" for j
  proof -
    from torch_to_mcore_axes(7)[OF A i that]
    have "global_offset ?d ! (?p + j) = (?off ! j div ?sz ! j) * ?sz ! j" by (simp add: sh)
    with ax(2)[OF that] show ?thesis by simp
  qed
  have af: "axis_fragmentations ?d ! (?p + j) = meta_size T ! j div ?sz ! j" if "j < ?n" for j
    using torch_to_mcore_axes(5)[OF A i that] by (simp add: ax(3)[OF that])
  show g1: "global_shape ?d' = meta_size T"
    using lgs gs p by (intro nth_equalityI) (simp_all add: strip_prepend_axes_def)
  show g2: "global_offset ?d' = ?off"
    using lgo go p loff by (intro nth_equalityI) (simp_all add: strip_prepend_axes_def)
  show g3: "shape (data ?d') = ?sz"
    using buf sh by (simp add: strip_prepend_axes_def)
  have g4: "length (axis_fragmentations ?d') = ?n"
    and g5: "\<And>j. j < ?n \<Longrightarrow> axis_fragmentations ?d' ! j = meta_size T ! j div ?sz ! j"
    and g6: "prepend_axis_num ?d' = 0"
    using laf af p by (simp_all add: strip_prepend_axes_def)
  have "axes_consistent ?sz (meta_size T) ?off (axis_fragmentations ?d')"
    unfolding axes_consistent_def list_all_iff
    using lsz loff g4 g5 ax(1,2) by auto
  then show "metadata_consistent ?d'"
    unfolding metadata_consistent_def using g1 g2 g3 g4 g6 lsz loff by simp
qed

text \<open>
  Claim C1, as the code has it. Let \<open>toDialectA\<close> return descriptors for a tensor with
  at least one local shard record, each record evenly cut: its extents are the
  buffer's shape and those of the first record, and divide the declared global extents
  and the record's offsets. Then \<open>toDialectB\<close>, given buffers of the local shapes,
  returns a Dialect-B tensor with the original declared size and, shard by shard, the
  original offsets and extents.
\<close>

theorem round_trip_geometry:
  assumes "torch_to_mcore_sharded_tensor k T prepend_offsets pfx allow = Inr ds"
    and "local_shards T \<noteq> []"
    and "\<forall>s \<in> set (local_shards T). evenly_cut T s"
    and "map shape tens = map (\<lambda>s. shape (tensor s)) (local_shards T)"
  shows "\<exists>ds' T'. mcore_to_pyt_sharded_tensor pl tens ds = Inr (ds', T') \<and>
           meta_size T' = meta_size T \<and>
           map (\<lambda>s. shard_offsets (metadata s)) (local_shards T') =
             map (\<lambda>s. shard_offsets (metadata s)) (local_shards T) \<and>
           map (\<lambda>s. shard_sizes (metadata s)) (local_shards T') =
             map (\<lambda>s. shard_sizes (metadata s)) (local_shards T)"
proof -
  let ?ls = "local_shards T"
  have len: "length ds = length ?ls" using assms(1) by (rule torch_to_mcore_length)
  have lt: "length tens = length ?ls" using assms(4) by (metis length_map)
  have S: "global_shape (strip_prepend_axes (tens ! i) (ds ! i)) = meta_size T \<and>
           global_offset (strip_prepend_axes (tens ! i) (ds ! i)) = shard_offsets (metadata (?ls ! i)) \<and>
           shape (data (strip_prepend_axes (tens ! i) (ds ! i))) = shard_sizes (metadata (?ls ! i)) \<and>
           metadata_consistent (strip_prepend_axes (tens ! i) (ds ! i))"
    if i: "i < length ?ls" for i
  proof -
    from i len have i': "i < length ds" by simp
    from i assms(3) have cut: "evenly_cut T (?ls ! i)" by simp
    from assms(4) i lt have "shape (tens ! i) = shape (tensor (?ls ! i))"
      by (metis (no_types, lifting) nth_map)
    from stripped_descriptor[OF assms(1) i' cut this] show ?thesis by simp
  qed
  then have "\<forall>i < min (length tens) (length ds).
      metadata_consistent (strip_prepend_axes (tens ! i) (ds ! i))"
    using len lt by simp
  from mcore_to_pyt_loop_consistent[OF this] obtain ds' where
    loop: "mcore_to_pyt_loop tens ds = Inr ds'" by blast
  note R = mcore_to_pyt_loop_result[OF loop]
  from R have len': "length ds' = length ?ls" using len by simp
  have D: "ds' ! i = strip_prepend_axes (tens ! i) (ds ! i)" if "i < length ?ls" for i
    using R that len lt by simp
  from assms(2) len' obtain d0 rest where ds': "ds' = d0 # rest" by (cases ds') auto
  let ?T' = "\<lparr> meta_size = global_shape d0, local_shards = map (shard_of_descriptor pl) ds' \<rparr>"
  have res: "mcore_to_pyt_sharded_tensor pl tens ds = Inr (ds', ?T')"
    using loop ds' by (simp add: mcore_to_pyt_sharded_tensor_def
        sharded_tensor_to_torch_sharded_tensor_def)
  have "0 < length ?ls" using assms(2) by simp
  from D[OF this] S[OF this] ds' have m: "meta_size ?T' = meta_size T" by simp
  have o: "map (\<lambda>s. shard_offsets (metadata s)) (local_shards ?T') =
             map (\<lambda>s. shard_offsets (metadata s)) ?ls"
    using len' D S by (intro nth_equalityI) (simp_all add: shard_of_descriptor_def)
  have z: "map (\<lambda>s. shard_sizes (metadata s)) (local_shards ?T') =
             map (\<lambda>s. shard_sizes (metadata s)) ?ls"
    using len' D S by (intro nth_equalityI) (simp_all add: shard_of_descriptor_def)
  from res m o z show ?thesis by blast
qed

text \<open>
  The theorem at \<open>layer_tensor\<close>, translated as layer 2 of 5 and merged back with a
  loaded buffer: size \<open>[8, 6]\<close>, offsets \<open>[4, 0]\<close> and extents \<open>[4, 6]\<close> come back.
\<close>

theorem round_trip_geometry_witness:
  "torch_to_mcore_sharded_tensor ''module.decoder.layers.w'' layer_tensor [(0, 2, 5)] [] False
     = Inr [layer_descriptor] \<and>
   evenly_cut layer_tensor (local_shards layer_tensor ! 0) \<and>
   mcore_to_pyt_sharded_tensor ''rank:1/cuda:1'' [loaded_buffer] [layer_descriptor] =
     Inr ([strip_prepend_axes loaded_buffer layer_descriptor],
          \<lparr> meta_size = meta_size layer_tensor,
            local_shards =
              [\<lparr> tensor = loaded_buffer,
                 metadata = \<lparr> shard_offsets = shard_offsets (metadata (local_shards layer_tensor ! 0)),
                              shard_sizes = shard_sizes (metadata (local_shards layer_tensor ! 0)),
                              placement = ''rank:1/cuda:1'' \<rparr> \<rparr>] \<rparr>)"
proof -
  have h: "torch_to_mcore_sharded_tensor ''module.decoder.layers.w'' layer_tensor [(0, 2, 5)] [] False
     = Inr [layer_descriptor]"
    by (simp add: toDialectA_defs layer_tensor_def layer_descriptor_def)
  have ne: "local_shards layer_tensor \<noteq> []" by (simp add: layer_tensor_def)
  have c0: "evenly_cut layer_tensor (local_shards layer_tensor ! 0)"
    by (simp add: evenly_cut_def layer_tensor_def)
  then have cut: "\<forall>s \<in> set (local_shards layer_tensor). evenly_cut layer_tensor s"
    by (simp add: layer_tensor_def)
  have bufs: "map shape [loaded_buffer] = map (\<lambda>s. shape (tensor s)) (local_shards layer_tensor)"
    by (simp add: layer_tensor_def loaded_buffer_def)
  from round_trip_geometry[OF h ne cut bufs, of "''rank:1/cuda:1''"] obtain ds' T' where
    "mcore_to_pyt_sharded_tensor ''rank:1/cuda:1'' [loaded_buffer] [layer_descriptor] = Inr (ds', T')"
    "meta_size T' = meta_size layer_tensor"
    by blast
  moreover have "mcore_to_pyt_sharded_tensor ''rank:1/cuda:1'' [loaded_buffer] [layer_descriptor] =
     Inr ([strip_prepend_axes loaded_buffer layer_descriptor],
          \<lparr> meta_size = meta_size layer_tensor,
            local_shards =
              [\<lparr> tensor = loaded_buffer,
                 metadata = \<lparr> shard_offsets = shard_offsets (metadata (local_shards layer_tensor ! 0)),
                              shard_sizes = shard_sizes (metadata (local_shards layer_tensor ! 0)),
                              placement = ''rank:1/cuda:1'' \<rparr> \<rparr>] \<rparr>)"
    by (simp add: toDialectB_defs descriptor_defs layer_tensor_def)
  ultimately show ?thesis using h c0 by simp
qed

text \<open>
  Against C1 as stated: the middle chunk of the vector of 10 entries goes through
  \<open>toDialectA\<close> and \<open>toDialectB\<close> without error, and the Dialect-B tensor that comes back
  has the declared size 8, not the original 10.
\<close>

theorem round_trip_counterexample:
  "torch_to_mcore_sharded_tensor ''w'' uneven_tensor [] [] False =
     Inr [\<lparr> key = ''w'', data = \<lparr> shape = [4], storage = 0 \<rparr>, global_shape = [8],
            global_offset = [4], axis_fragmentations = [2], replica_id = 0,
            prepend_axis_num = 0, allow_shape_mismatch = False \<rparr>] \<and>
   mcore_to_pyt_sharded_tensor ''rank:1/cuda:1'' [\<lparr> shape = [4], storage = 0 \<rparr>]
     [\<lparr> key = ''w'', data = \<lparr> shape = [4], storage = 0 \<rparr>, global_shape = [8],
        global_offset = [4], axis_fragmentations = [2], replica_id = 0,
        prepend_axis_num = 0, allow_shape_mismatch = False \<rparr>] =
     Inr ([\<lparr> key = ''w'', data = \<lparr> shape = [4], storage = 0 \<rparr>, global_shape = [8],
             global_offset = [4], axis_fragmentations = [2], replica_id = 0,
             prepend_axis_num = 0, allow_shape_mismatch = False \<rparr>],
          \<lparr> meta_size = [8],
            local_shards =
              [\<lparr> tensor = \<lparr> shape = [4], storage = 0 \<rparr>,
                 metadata = \<lparr> shard_offsets = [4], shard_sizes = [4],
                              placement = ''rank:1/cuda:1'' \<rparr> \<rparr>] \<rparr>) \<and>
   meta_size uneven_tensor = [10]"
  by (simp add: toDialectA_defs toDialectB_defs uneven_tensor_def)

end
